theory Spec2Isabelle
  imports Main
begin

section \<open>Python values, dictionaries and exceptions\<close>

text \<open>
  The documents handled by \<^verbatim>\<open>database.py\<close> and \<^verbatim>\<open>main.py\<close> are Python
  dictionaries with string keys. A dictionary is an association list; \<open>dict_set\<close>
  is the assignment \<^verbatim>\<open>d[k] = v\<close> (replace the value of an existing key, append a new
  key). Timestamps are readings of a clock, kept abstract as natural numbers.
\<close>

datatype pyval =
    VNone
  | VBool bool
  | VInt int
  | VStr string
  | VObjectId string
  | VDatetime nat
  | VList "pyval list"
  | VDict "(string \<times> pyval) list"

type_synonym doc = "(string \<times> pyval) list"

fun dict_set :: "('k \<times> 'v) list \<Rightarrow> 'k \<Rightarrow> 'v \<Rightarrow> ('k \<times> 'v) list" where
  "dict_set [] k v = [(k, v)]"
| "dict_set ((k', v') # d) k v = (if k' = k then (k, v) # d else (k', v') # dict_set d k v)"

definition dict_get :: "('k \<times> 'v) list \<Rightarrow> 'k \<Rightarrow> 'v option" where
  "dict_get d k = map_of d k"

definition dict_contains :: "('k \<times> 'v) list \<Rightarrow> 'k \<Rightarrow> bool" where
  "dict_contains d k = (map_of d k \<noteq> None)"

text \<open>Python's truth value of an object, as used by \<^verbatim>\<open>not x\<close>, \<^verbatim>\<open>x or y\<close>, \<^verbatim>\<open>if x\<close>.\<close>

fun truthy :: "pyval \<Rightarrow> bool" where
  "truthy VNone = False"
| "truthy (VBool b) = b"
| "truthy (VInt i) = (i \<noteq> 0)"
| "truthy (VStr s) = (s \<noteq> [])"
| "truthy (VObjectId s) = True"
| "truthy (VDatetime t) = True"
| "truthy (VList xs) = (xs \<noteq> [])"
| "truthy (VDict d) = (d \<noteq> [])"

text \<open>
  Exceptions. The libraries and \<^verbatim>\<open>database.py\<close> raise a \<open>lib_exn\<close>:
  \<open>ValidationError\<close> is the only one with an \<^verbatim>\<open>errors()\<close> method (its result is
  carried), \<open>Exception\<close> stands for every other exception class. Only \<^verbatim>\<open>main.py\<close>
  raises FastAPI's \<open>HTTPException\<close>, which carries the status code and the detail
  string.
\<close>

datatype lib_exn =
    ImportError string
  | JSONDecodeError string
  | ValidationError pyval
  | Exception string

datatype exn = HTTPException nat string | Raised lib_exn

section \<open>The environment: libraries, driver and the schemas module\<close>

text \<open>
  A Pydantic model class of the schemas module, as far as the handlers use it:
  \<^verbatim>\<open>model_validate\<close>, \<^verbatim>\<open>model_json_schema\<close> and the keys of \<^verbatim>\<open>model_fields\<close>.
  A member of a module, as \<^verbatim>\<open>inspect.getmembers\<close> lists it, is such a class,
  \<^verbatim>\<open>BaseModel\<close> itself, or any other object.
\<close>

record schema_class =
  model_validate :: "doc \<Rightarrow> lib_exn + unit"
  model_json_schema :: "lib_exn + doc"
  model_fields :: "string list"

datatype member = ModelClass schema_class | BaseModelClass | OtherObject

text \<open>The result object of \<^verbatim>\<open>update_one\<close>.\<close>

record update_result =
  matched_count :: int
  modified_count :: int

text \<open>
  Everything the repository does not author is a parameter: \<^verbatim>\<open>str\<close>, \<^verbatim>\<open>str.lower\<close>,
  \<^verbatim>\<open>json.loads\<close>,
  \<^verbatim>\<open>ObjectId\<close>, the import of the two sibling modules, and the operations of the
  database driver over a store of type \<open>'s\<close>. A write returns the store it leaves,
  also when it raises.
\<close>

record 's env =
  py_str :: "pyval \<Rightarrow> string"
  exn_str :: "exn \<Rightarrow> string"
  str_lower :: "string \<Rightarrow> string"
  json_loads :: "string \<Rightarrow> lib_exn + pyval"
  ObjectId :: "string \<Rightarrow> lib_exn + pyval"
  import_schemas :: "lib_exn + (string \<times> member) list"
  import_database :: "lib_exn option"
  list_collection_names :: "'s \<Rightarrow> lib_exn + string list"
  count_documents :: "'s \<Rightarrow> string \<Rightarrow> pyval \<Rightarrow> lib_exn + int"
  find_cursor :: "'s \<Rightarrow> string \<Rightarrow> pyval \<Rightarrow> int option \<Rightarrow> int option \<Rightarrow> lib_exn + doc list"
  insert_one :: "'s \<Rightarrow> string \<Rightarrow> doc \<Rightarrow> (lib_exn + pyval) \<times> 's"
  update_one :: "'s \<Rightarrow> string \<Rightarrow> doc \<Rightarrow> doc \<Rightarrow> (lib_exn + update_result) \<times> 's"
  delete_one :: "'s \<Rightarrow> string \<Rightarrow> doc \<Rightarrow> (lib_exn + int) \<times> 's"

text \<open>
  The calls issued to the driver are recorded, with their arguments, in the order they
  are made. \<open>Find c f skip limit\<close> is \<^verbatim>\<open>db[c].find(f)\<close> with the optional
  \<^verbatim>\<open>.skip\<close> and \<^verbatim>\<open>.limit\<close>, read to the end by \<^verbatim>\<open>list\<close>.
\<close>

datatype call =
    ListCollectionNames
  | CountDocuments string pyval
  | Find string pyval "int option" "int option"
  | InsertOne string doc
  | UpdateOne string doc doc
  | DeleteOne string doc

text \<open>
  The mutable world: the module global \<^verbatim>\<open>db\<close> (\<open>None\<close>, or the store behind the
  handle), the clock read by \<^verbatim>\<open>datetime.now\<close> (\<open>clock w n\<close> is the \<open>n\<close>-th reading,
  \<open>reads w\<close> counts the readings taken) and the driver calls issued so far.
\<close>

record 's world =
  db :: "'s option"
  clock :: "nat \<Rightarrow> nat"
  reads :: nat
  calls :: "call list"

definition now :: "'s world \<Rightarrow> pyval \<times> 's world" where
  "now w = (VDatetime (clock w (reads w)), w\<lparr>reads := Suc (reads w)\<rparr>)"

section \<open>database.py\<close>

text \<open>
  The module body: \<^verbatim>\<open>db\<close> is set only if both variables are truthy, that is set
  and not empty. \<open>connect url name\<close> stands for \<^verbatim>\<open>MongoClient(url)[name]\<close>.
\<close>

definition str_truthy :: "string option \<Rightarrow> bool" where
  "str_truthy v = (case v of None \<Rightarrow> False | Some s \<Rightarrow> s \<noteq> [])"

definition database_module ::
  "(string \<Rightarrow> string \<Rightarrow> lib_exn + 's) \<Rightarrow> (string \<Rightarrow> string option) \<Rightarrow> lib_exn + 's option" where
  "database_module connect getenv =
     (let database_url = getenv ''DATABASE_URL'';
          database_name = getenv ''DATABASE_NAME''
      in if str_truthy database_url \<and> str_truthy database_name
         then (case (database_url, database_name) of
                 (Some url, Some name) \<Rightarrow>
                   (case connect url name of Inl e \<Rightarrow> Inl e | Inr h \<Rightarrow> Inr (Some h))
               | _ \<Rightarrow> Inr None)
         else Inr None)"

text \<open>
  An instance of a Pydantic model: its field values and the names of the fields that
  were set explicitly. \<^verbatim>\<open>model_dump()\<close> gives all fields,
  \<^verbatim>\<open>model_dump(exclude_unset=True)\<close> the set ones.
\<close>

record model_instance =
  field_values :: doc
  fields_set :: "string list"

definition model_dump :: "model_instance \<Rightarrow> doc" where
  "model_dump m = field_values m"

definition model_dump_exclude_unset :: "model_instance \<Rightarrow> doc" where
  "model_dump_exclude_unset m = filter (\<lambda>(k, v). k \<in> set (fields_set m)) (field_values m)"

datatype data_arg = DictArg doc | ModelArg model_instance

definition not_available :: string where
  "not_available =
     ''Database not available. Check DATABASE_URL and DATABASE_NAME environment variables.''"

definition not_initialized :: string where
  "not_initialized = ''Database not initialized. Call enable-database first.''"

definition create_document ::
  "'s env \<Rightarrow> 's world \<Rightarrow> string \<Rightarrow> data_arg \<Rightarrow> (lib_exn + string) \<times> 's world" where
  "create_document E w collection_name data =
     (case db w of
        None \<Rightarrow> (Inl (Exception not_available), w)
      | Some s \<Rightarrow>
          (let data_dict = (case data of ModelArg m \<Rightarrow> model_dump m | DictArg d \<Rightarrow> d)
           in case now w of (t1, w1) \<Rightarrow>
              (let data_dict1 = dict_set data_dict ''created_at'' t1
               in case now w1 of (t2, w2) \<Rightarrow>
                  (let data_dict2 = dict_set data_dict1 ''updated_at'' t2
                   in case insert_one E s collection_name data_dict2 of (r, s') \<Rightarrow>
                      (let w3 = w2\<lparr>db := Some s',
                                   calls := calls w2 @ [InsertOne collection_name data_dict2]\<rparr>
                       in case r of
                            Inl e \<Rightarrow> (Inl e, w3)
                          | Inr inserted_id \<Rightarrow> (Inr (py_str E inserted_id), w3))))))"

definition get_documents ::
  "'s env \<Rightarrow> 's world \<Rightarrow> string \<Rightarrow> doc option \<Rightarrow> int option \<Rightarrow> (lib_exn + doc list) \<times> 's world" where
  "get_documents E w collection_name filter_dict limit =
     (case db w of
        None \<Rightarrow> (Inl (Exception not_available), w)
      | Some s \<Rightarrow>
          (let f = (case filter_dict of None \<Rightarrow> [] | Some d \<Rightarrow> d);
               l = (case limit of None \<Rightarrow> None | Some n \<Rightarrow> if n \<noteq> 0 then Some n else None);
               w1 = w\<lparr>calls := calls w @ [Find collection_name (VDict f) None l]\<rparr>
           in (find_cursor E s collection_name (VDict f) None l, w1)))"

definition update_document ::
  "'s env \<Rightarrow> 's world \<Rightarrow> string \<Rightarrow> doc \<Rightarrow> data_arg \<Rightarrow> (lib_exn + bool) \<times> 's world" where
  "update_document E w collection_name filter_dict update_data =
     (case db w of
        None \<Rightarrow> (Inl (Exception not_available), w)
      | Some s \<Rightarrow>
          (let update_dict =
                 (case update_data of ModelArg m \<Rightarrow> model_dump_exclude_unset m | DictArg d \<Rightarrow> d)
           in case now w of (t, w1) \<Rightarrow>
              (let update_dict1 = dict_set update_dict ''updated_at'' t;
                   upd = [(''$set'', VDict update_dict1)]
               in case update_one E s collection_name filter_dict upd of (r, s') \<Rightarrow>
                  (let w2 = w1\<lparr>db := Some s',
                               calls := calls w1 @ [UpdateOne collection_name filter_dict upd]\<rparr>
                   in case r of
                        Inl e \<Rightarrow> (Inl e, w2)
                      | Inr result \<Rightarrow> (Inr (modified_count result > 0), w2)))))"

definition delete_document ::
  "'s env \<Rightarrow> 's world \<Rightarrow> string \<Rightarrow> doc \<Rightarrow> (lib_exn + bool) \<times> 's world" where
  "delete_document E w collection_name filter_dict =
     (case db w of
        None \<Rightarrow> (Inl (Exception not_initialized), w)
      | Some s \<Rightarrow>
          (case delete_one E s collection_name filter_dict of (r, s') \<Rightarrow>
             (let w1 = w\<lparr>db := Some s',
                         calls := calls w @ [DeleteOne collection_name filter_dict]\<rparr>
              in case r of
                   Inl e \<Rightarrow> (Inl e, w1)
                 | Inr deleted_count \<Rightarrow> (Inr (deleted_count > 0), w1))))"

section \<open>main.py\<close>

text \<open>
  The two exception clauses that close every database endpoint but one:
  \<^verbatim>\<open>except HTTPException: raise\<close> followed by
  \<^verbatim>\<open>except Exception as e: raise HTTPException(status_code=500, detail=f"...{str(e)}")\<close>.
  \<open>wrap_500\<close> is the second clause alone.
\<close>

definition wrap_500 :: "'s env \<Rightarrow> string \<Rightarrow> exn \<Rightarrow> exn" where
  "wrap_500 E prefix e = HTTPException 500 (prefix @ exn_str E e)"

definition reraise_or_500 :: "'s env \<Rightarrow> string \<Rightarrow> exn \<Rightarrow> exn" where
  "reraise_or_500 E prefix e =
     (case e of HTTPException status detail \<Rightarrow> HTTPException status detail
              | _ \<Rightarrow> wrap_500 E prefix e)"

definition not_connected :: exn where
  "not_connected = HTTPException 503 ''Database not connected''"

subsection \<open>Reflection over the schemas module\<close>

definition startswith_underscore :: "string \<Rightarrow> bool" where
  "startswith_underscore name = (case name of [] \<Rightarrow> False | c # _ \<Rightarrow> c = CHR ''_'')"

text \<open>
  The loop of \<^verbatim>\<open>get_all_schemas\<close> over \<^verbatim>\<open>inspect.getmembers(schemas)\<close>; a class
  whose \<^verbatim>\<open>model_json_schema\<close> raises is printed and left out.
\<close>

fun collect_schemas :: "(string \<times> member) list \<Rightarrow> doc \<Rightarrow> doc" where
  "collect_schemas [] schemas_dict = schemas_dict"
| "collect_schemas ((name, obj) # rest) schemas_dict =
     (case obj of
        ModelClass cls \<Rightarrow>
          (if \<not> startswith_underscore name
           then (case model_json_schema cls of
                   Inl e \<Rightarrow> collect_schemas rest schemas_dict
                 | Inr js \<Rightarrow>
                     collect_schemas rest
                       (dict_set schemas_dict name
                          (VDict [(''json_schema'', VDict js),
                                  (''fields'', VList (map VStr (model_fields cls))),
                                  (''required_fields'',
                                     (case dict_get js ''required'' of
                                        None \<Rightarrow> VList [] | Some r \<Rightarrow> r))])))
           else collect_schemas rest schemas_dict)
      | _ \<Rightarrow> collect_schemas rest schemas_dict)"

definition get_all_schemas :: "'s env \<Rightarrow> exn + doc" where
  "get_all_schemas E =
     (case import_schemas E of
        Inl e \<Rightarrow>
          (case e of
             ImportError m \<Rightarrow>
               Inl (HTTPException 400 ''Schemas module not found. Define schemas in schemas.py'')
           | _ \<Rightarrow> Inl (wrap_500 E ''Error loading schemas: '' (Raised e)))
      | Inr members \<Rightarrow>
          Inr [(''ok'', VBool True), (''schemas'', VDict (collect_schemas members []))])"

text \<open>
  The loop of \<^verbatim>\<open>validate_document\<close> that maps lowercased class names to classes;
  \<open>lower\<close> is \<^verbatim>\<open>str.lower\<close>.
\<close>

fun build_schema_map ::
  "(string \<Rightarrow> string) \<Rightarrow> (string \<times> member) list \<Rightarrow> (string \<times> schema_class) list
     \<Rightarrow> (string \<times> schema_class) list" where
  "build_schema_map lower [] schema_map = schema_map"
| "build_schema_map lower ((name, obj) # rest) schema_map =
     (case obj of
        ModelClass cls \<Rightarrow> build_schema_map lower rest (dict_set schema_map (lower name) cls)
      | _ \<Rightarrow> build_schema_map lower rest schema_map)"

definition skip_message :: string where
  "skip_message = ''No schema defined for this collection, skipping validation''"

definition validate_document :: "'s env \<Rightarrow> string \<Rightarrow> doc \<Rightarrow> exn + doc" where
  "validate_document E collection_name document =
     (case import_schemas E of
        Inl e \<Rightarrow> Inl (wrap_500 E ''Error validating document: '' (Raised e))
      | Inr members \<Rightarrow>
          (let schema_map = build_schema_map (str_lower E) members []
           in case dict_get schema_map collection_name of
                None \<Rightarrow>
                  Inr [(''ok'', VBool True), (''valid'', VBool True),
                       (''message'', VStr skip_message)]
              | Some cls \<Rightarrow>
                  (case model_validate cls document of
                     Inr u \<Rightarrow> Inr [(''ok'', VBool True), (''valid'', VBool True)]
                   | Inl validation_error \<Rightarrow>
                       (let errors = (case validation_error of
                                        ValidationError es \<Rightarrow> es
                                      | _ \<Rightarrow> VList [])
                        in Inr [(''ok'', VBool True), (''valid'', VBool False),
                                (''errors'', errors)]))))"

subsection \<open>Collections\<close>

fun collections_info ::
  "'s env \<Rightarrow> 's \<Rightarrow> string list \<Rightarrow> 's world \<Rightarrow> (lib_exn + pyval list) \<times> 's world" where
  "collections_info E s [] w = (Inr [], w)"
| "collections_info E s (col_name # rest) w =
     (let w1 = w\<lparr>calls := calls w @ [CountDocuments col_name (VDict [])]\<rparr>
      in case count_documents E s col_name (VDict []) of
           Inl e \<Rightarrow> (Inl e, w1)
         | Inr count \<Rightarrow>
             (case collections_info E s rest w1 of
                (Inl e, w2) \<Rightarrow> (Inl e, w2)
              | (Inr infos, w2) \<Rightarrow>
                  (Inr (VDict [(''name'', VStr col_name), (''count'', VInt count)] # infos), w2)))"

definition list_collections_body :: "'s env \<Rightarrow> 's world \<Rightarrow> (exn + doc) \<times> 's world" where
  "list_collections_body E w =
     (case import_database E of
        Some e \<Rightarrow> (Inl (Raised e), w)
      | None \<Rightarrow>
          (case db w of
             None \<Rightarrow> (Inl not_connected, w)
           | Some s \<Rightarrow>
               (let w1 = w\<lparr>calls := calls w @ [ListCollectionNames]\<rparr>
                in case list_collection_names E s of
                     Inl e \<Rightarrow> (Inl (Raised e), w1)
                   | Inr collections \<Rightarrow>
                       (case collections_info E s collections w1 of
                          (Inl e, w2) \<Rightarrow> (Inl (Raised e), w2)
                        | (Inr infos, w2) \<Rightarrow>
                            (Inr [(''ok'', VBool True), (''collections'', VList infos)], w2)))))"

text \<open>
  \<^verbatim>\<open>list_collections\<close> has the clause \<^verbatim>\<open>except Exception\<close> only, and
  \<^verbatim>\<open>HTTPException\<close> is a subclass of \<^verbatim>\<open>Exception\<close>.
\<close>

definition list_collections :: "'s env \<Rightarrow> 's world \<Rightarrow> (exn + doc) \<times> 's world" where
  "list_collections E w =
     (case list_collections_body E w of
        (Inl e, w') \<Rightarrow> (Inl (wrap_500 E ''Error listing collections: '' e), w')
      | (Inr r, w') \<Rightarrow> (Inr r, w'))"

definition stringify_id :: "'s env \<Rightarrow> doc \<Rightarrow> doc" where
  "stringify_id E d =
     (if dict_contains d ''_id''
      then (case dict_get d ''_id'' of
              None \<Rightarrow> d
            | Some v \<Rightarrow> dict_set d ''_id'' (VStr (py_str E v)))
      else d)"

definition collection_not_found :: "string \<Rightarrow> exn" where
  "collection_not_found collection_name =
     HTTPException 404 (''Collection '' @ [CHR 0x27] @ collection_name @ [CHR 0x27] @ '' not found'')"

text \<open>
  The query parameters \<open>limit\<close>, \<open>skip\<close> and \<open>filter\<close> are optional, with the defaults
  100, 0 and \<^verbatim>\<open>None\<close> of the signature.
\<close>

definition get_collection_documents_body ::
  "'s env \<Rightarrow> 's world \<Rightarrow> string \<Rightarrow> int option \<Rightarrow> int option \<Rightarrow> string option
     \<Rightarrow> (exn + doc) \<times> 's world" where
  "get_collection_documents_body E w collection_name limit_q skip_q filter_q =
     (let limit0 = (case limit_q of None \<Rightarrow> 100 | Some l \<Rightarrow> l);
          skip = (case skip_q of None \<Rightarrow> 0 | Some k \<Rightarrow> k)
      in case import_database E of
        Some e \<Rightarrow> (Inl (Raised e), w)
      | None \<Rightarrow>
          (case db w of
             None \<Rightarrow> (Inl not_connected, w)
           | Some s \<Rightarrow>
               (let w1 = w\<lparr>calls := calls w @ [ListCollectionNames]\<rparr>
                in case list_collection_names E s of
                     Inl e \<Rightarrow> (Inl (Raised e), w1)
                   | Inr names \<Rightarrow>
                       if collection_name \<notin> set names
                       then (Inl (collection_not_found collection_name), w1)
                       else
                         (let limit = min limit0 1000;
                              parsed =
                                (case filter_q of
                                   None \<Rightarrow> Inr (VDict [])
                                 | Some f \<Rightarrow>
                                     if f \<noteq> []
                                     then (case json_loads E f of
                                             Inl e \<Rightarrow>
                                               (case e of
                                                  JSONDecodeError m \<Rightarrow>
                                                    Inl (HTTPException 400 ''Invalid filter JSON'')
                                                | _ \<Rightarrow> Inl (Raised e))
                                           | Inr v \<Rightarrow> Inr v)
                                     else Inr (VDict []))
                          in case parsed of
                               Inl e \<Rightarrow> (Inl e, w1)
                             | Inr filter_dict \<Rightarrow>
                                 (let w2 = w1\<lparr>calls := calls w1 @
                                             [CountDocuments collection_name filter_dict]\<rparr>
                                  in case count_documents E s collection_name filter_dict of
                                       Inl e \<Rightarrow> (Inl (Raised e), w2)
                                     | Inr total_count \<Rightarrow>
                                         (let w3 = w2\<lparr>calls := calls w2 @
                                                     [Find collection_name filter_dict
                                                        (Some skip) (Some limit)]\<rparr>
                                          in case find_cursor E s collection_name filter_dict
                                                    (Some skip) (Some limit) of
                                               Inl e \<Rightarrow> (Inl (Raised e), w3)
                                             | Inr documents \<Rightarrow>
                                                 (Inr [(''ok'', VBool True),
                                                       (''collection'', VStr collection_name),
                                                       (''documents'',
                                                          VList (map (\<lambda>d. VDict (stringify_id E d))
                                                                   documents)),
                                                       (''total'', VInt total_count),
                                                       (''limit'', VInt limit),
                                                       (''skip'', VInt skip)], w3)))))))"

definition get_collection_documents ::
  "'s env \<Rightarrow> 's world \<Rightarrow> string \<Rightarrow> int option \<Rightarrow> int option \<Rightarrow> string option
     \<Rightarrow> (exn + doc) \<times> 's world" where
  "get_collection_documents E w collection_name limit_q skip_q filter_q =
     (case get_collection_documents_body E w collection_name limit_q skip_q filter_q of
        (Inl e, w') \<Rightarrow> (Inl (reraise_or_500 E ''Error fetching documents: '' e), w')
      | (Inr r, w') \<Rightarrow> (Inr r, w'))"

subsection \<open>Create, update, delete\<close>

text \<open>
  The check shared by the create and the update endpoint: \<^verbatim>\<open>validation["valid"]\<close> and
  the \<^verbatim>\<open>HTTPException\<close> with \<^verbatim>\<open>validation.get('errors', [])\<close> in its detail.
\<close>

definition validation_failed :: "'s env \<Rightarrow> doc \<Rightarrow> exn" where
  "validation_failed E validation =
     HTTPException 400
       (''Validation failed: '' @
          py_str E (case dict_get validation ''errors'' of None \<Rightarrow> VList [] | Some es \<Rightarrow> es))"

definition check_valid :: "'s env \<Rightarrow> doc \<Rightarrow> exn option" where
  "check_valid E validation =
     (case dict_get validation ''valid'' of
        None \<Rightarrow> Some (Raised (Exception ''KeyError: valid''))
      | Some v \<Rightarrow> if \<not> truthy v then Some (validation_failed E validation) else None)"

definition main_create_document_body ::
  "'s env \<Rightarrow> 's world \<Rightarrow> string \<Rightarrow> doc \<Rightarrow> (exn + doc) \<times> 's world" where
  "main_create_document_body E w collection_name document =
     (case import_database E of
        Some e \<Rightarrow> (Inl (Raised e), w)
      | None \<Rightarrow>
          (case db w of
             None \<Rightarrow> (Inl not_connected, w)
           | Some s \<Rightarrow>
               (case validate_document E collection_name document of
                  Inl e \<Rightarrow> (Inl e, w)
                | Inr validation \<Rightarrow>
                    (case check_valid E validation of
                       Some e \<Rightarrow> (Inl e, w)
                     | None \<Rightarrow>
                         (case create_document E w collection_name (DictArg document) of
                            (Inl e, w') \<Rightarrow> (Inl (Raised e), w')
                          | (Inr doc_id, w') \<Rightarrow>
                              (Inr [(''ok'', VBool True),
                                    (''id'', VStr doc_id),
                                    (''message'',
                                       VStr (''Document created in '' @ collection_name))],
                               w'))))))"

definition main_create_document ::
  "'s env \<Rightarrow> 's world \<Rightarrow> string \<Rightarrow> doc \<Rightarrow> (exn + doc) \<times> 's world" where
  "main_create_document E w collection_name document =
     (case main_create_document_body E w collection_name document of
        (Inl e, w') \<Rightarrow> (Inl (reraise_or_500 E ''Error creating document: '' e), w')
      | (Inr r, w') \<Rightarrow> (Inr r, w'))"

definition invalid_id :: exn where
  "invalid_id = HTTPException 400 ''Invalid document ID format''"

definition document_not_found :: exn where
  "document_not_found = HTTPException 404 ''Document not found''"

definition main_update_document_body ::
  "'s env \<Rightarrow> 's world \<Rightarrow> string \<Rightarrow> string \<Rightarrow> doc \<Rightarrow> (exn + doc) \<times> 's world" where
  "main_update_document_body E w collection_name doc_id document =
     (case import_database E of
        Some e \<Rightarrow> (Inl (Raised e), w)
      | None \<Rightarrow>
          (case db w of
             None \<Rightarrow> (Inl not_connected, w)
           | Some s \<Rightarrow>
               (case validate_document E collection_name document of
                  Inl e \<Rightarrow> (Inl e, w)
                | Inr validation \<Rightarrow>
                    (case check_valid E validation of
                       Some e \<Rightarrow> (Inl e, w)
                     | None \<Rightarrow>
                         (case ObjectId E doc_id of
                            Inl e \<Rightarrow> (Inl invalid_id, w)
                          | Inr obj_id \<Rightarrow>
                              (case update_document E w collection_name [(''_id'', obj_id)]
                                      (DictArg document) of
                                 (Inl e, w') \<Rightarrow> (Inl (Raised e), w')
                               | (Inr success, w') \<Rightarrow>
                                   if \<not> success then (Inl document_not_found, w')
                                   else
                                     (Inr [(''ok'', VBool True),
                                           (''message'',
                                              VStr (''Document '' @ doc_id @ '' updated in '' @
                                                    collection_name))],
                                      w')))))))"

definition main_update_document ::
  "'s env \<Rightarrow> 's world \<Rightarrow> string \<Rightarrow> string \<Rightarrow> doc \<Rightarrow> (exn + doc) \<times> 's world" where
  "main_update_document E w collection_name doc_id document =
     (case main_update_document_body E w collection_name doc_id document of
        (Inl e, w') \<Rightarrow> (Inl (reraise_or_500 E ''Error updating document: '' e), w')
      | (Inr r, w') \<Rightarrow> (Inr r, w'))"

definition main_delete_document_body ::
  "'s env \<Rightarrow> 's world \<Rightarrow> string \<Rightarrow> string \<Rightarrow> (exn + doc) \<times> 's world" where
  "main_delete_document_body E w collection_name doc_id =
     (case import_database E of
        Some e \<Rightarrow> (Inl (Raised e), w)
      | None \<Rightarrow>
          (case db w of
             None \<Rightarrow> (Inl not_connected, w)
           | Some s \<Rightarrow>
               (case ObjectId E doc_id of
                  Inl e \<Rightarrow> (Inl invalid_id, w)
                | Inr obj_id \<Rightarrow>
                    (case delete_document E w collection_name [(''_id'', obj_id)] of
                       (Inl e, w') \<Rightarrow> (Inl (Raised e), w')
                     | (Inr success, w') \<Rightarrow>
                         if \<not> success then (Inl document_not_found, w')
                         else
                           (Inr [(''ok'', VBool True),
                                 (''message'',
                                    VStr (''Document '' @ doc_id @ '' deleted from '' @
                                          collection_name))],
                            w')))))"

definition main_delete_document ::
  "'s env \<Rightarrow> 's world \<Rightarrow> string \<Rightarrow> string \<Rightarrow> (exn + doc) \<times> 's world" where
  "main_delete_document E w collection_name doc_id =
     (case main_delete_document_body E w collection_name doc_id of
        (Inl e, w') \<Rightarrow> (Inl (reraise_or_500 E ''Error deleting document: '' e), w')
      | (Inr r, w') \<Rightarrow> (Inr r, w'))"

text \<open>The status code of an endpoint's outcome: 200 for a returned body.\<close>

definition status_of :: "exn + doc \<Rightarrow> nat option" where
  "status_of r =
     (case r of
        Inr body \<Rightarrow> Some 200
      | Inl e \<Rightarrow> (case e of HTTPException status detail \<Rightarrow> Some status | _ \<Rightarrow> None))"

section \<open>The data argument as an object on the heap\<close>

text \<open>
  Whether \<^verbatim>\<open>create_document\<close> and \<^verbatim>\<open>update_document\<close> of \<^verbatim>\<open>database.py\<close> change
  the dictionary of their caller depends on which object each assignment writes to.
  Here the dictionaries live on a heap (the address of an object is its index) and the
  caller passes a reference. \<^verbatim>\<open>data.copy()\<close> and \<^verbatim>\<open>model_dump\<close> allocate a new
  object, the assignments of the timestamps write to it, and the driver is handed that
  object, which it may change as well (\<open>touch\<close>: the driver adds the \<^verbatim>\<open>_id\<close> it
  generates to the dictionary it inserts). A reference held by a caller is always
  below the length of the heap.
\<close>

datatype data_ref = DictRef nat | ModelRef model_instance

definition create_document_h ::
  "'s env \<Rightarrow> (doc \<Rightarrow> doc) \<Rightarrow> doc list \<times> 's world \<Rightarrow> string \<Rightarrow> data_ref
     \<Rightarrow> (lib_exn + string) \<times> doc list \<times> 's world" where
  "create_document_h E touch hw collection_name data =
     (case hw of (h, w) \<Rightarrow>
        (case db w of
           None \<Rightarrow> (Inl (Exception not_available), h, w)
         | Some s \<Rightarrow>
             (let data_dict = length h;
                  h1 = h @ [(case data of ModelRef m \<Rightarrow> model_dump m | DictRef r \<Rightarrow> h ! r)]
              in case now w of (t1, w1) \<Rightarrow>
                 (let h2 = h1[data_dict := dict_set (h1 ! data_dict) ''created_at'' t1]
                  in case now w1 of (t2, w2) \<Rightarrow>
                     (let h3 = h2[data_dict := dict_set (h2 ! data_dict) ''updated_at'' t2]
                      in case insert_one E s collection_name (h3 ! data_dict) of (r, s') \<Rightarrow>
                         (let h4 = h3[data_dict := touch (h3 ! data_dict)];
                              w3 = w2\<lparr>db := Some s',
                                      calls := calls w2 @
                                        [InsertOne collection_name (h3 ! data_dict)]\<rparr>
                          in case r of
                               Inl e \<Rightarrow> (Inl e, h4, w3)
                             | Inr inserted_id \<Rightarrow> (Inr (py_str E inserted_id), h4, w3)))))))"

definition update_document_h ::
  "'s env \<Rightarrow> (doc \<Rightarrow> doc) \<Rightarrow> doc list \<times> 's world \<Rightarrow> string \<Rightarrow> doc \<Rightarrow> data_ref
     \<Rightarrow> (lib_exn + bool) \<times> doc list \<times> 's world" where
  "update_document_h E touch hw collection_name filter_dict update_data =
     (case hw of (h, w) \<Rightarrow>
        (case db w of
           None \<Rightarrow> (Inl (Exception not_available), h, w)
         | Some s \<Rightarrow>
             (let update_dict = length h;
                  h1 = h @ [(case update_data of
                               ModelRef m \<Rightarrow> model_dump_exclude_unset m
                             | DictRef r \<Rightarrow> h ! r)]
              in case now w of (t, w1) \<Rightarrow>
                 (let h2 = h1[update_dict := dict_set (h1 ! update_dict) ''updated_at'' t];
                      upd = [(''$set'', VDict (h2 ! update_dict))]
                  in case update_one E s collection_name filter_dict upd of (r, s') \<Rightarrow>
                     (let h3 = h2[update_dict := touch (h2 ! update_dict)];
                          w2 = w1\<lparr>db := Some s',
                                  calls := calls w1 @
                                    [UpdateOne collection_name filter_dict upd]\<rparr>
                      in case r of
                           Inl e \<Rightarrow> (Inl e, h3, w2)
                         | Inr result \<Rightarrow> (Inr (modified_count result > 0), h3, w2))))))"

text \<open>The value a reference stands for, to compare the two levels.\<close>

definition deref :: "doc list \<Rightarrow> data_ref \<Rightarrow> data_arg" where
  "deref h data = (case data of DictRef r \<Rightarrow> DictArg (h ! r) | ModelRef m \<Rightarrow> ModelArg m)"

section \<open>The schema a collection name selects\<close>

text \<open>
  In words: among the members of the schemas module that are model classes (other than
  \<^verbatim>\<open>BaseModel\<close>) and whose lowercased name is the collection name, the one listed
  last; none if there is no such member. \<open>lower\<close> is \<^verbatim>\<open>str.lower\<close>.
\<close>

fun is_model :: "member \<Rightarrow> bool" where
  "is_model (ModelClass cls) = True"
| "is_model _ = False"

definition named_models ::
  "(string \<Rightarrow> string) \<Rightarrow> (string \<times> member) list \<Rightarrow> string \<Rightarrow> schema_class list" where
  "named_models lower members collection_name =
     concat (map (\<lambda>(name, obj). case obj of
                     ModelClass cls \<Rightarrow> if lower name = collection_name then [cls] else []
                   | _ \<Rightarrow> []) members)"

definition schema_for ::
  "(string \<Rightarrow> string) \<Rightarrow> (string \<times> member) list \<Rightarrow> string \<Rightarrow> schema_class option" where
  "schema_for lower members collection_name =
     (case rev (named_models lower members collection_name) of
        [] \<Rightarrow> None
      | cls # _ \<Rightarrow> Some cls)"

section \<open>The shipped schemas module and a sample installation\<close>

text \<open>
  \<^verbatim>\<open>schemas.py\<close> as shipped holds a docstring, a second string and comments: its
  members are the attributes every module has, none of them a class.
\<close>

definition shipped_schemas :: "(string \<times> member) list" where
  "shipped_schemas =
     [(''__builtins__'', OtherObject), (''__cached__'', OtherObject),
      (''__doc__'', OtherObject), (''__file__'', OtherObject),
      (''__loader__'', OtherObject), (''__name__'', OtherObject),
      (''__package__'', OtherObject), (''__spec__'', OtherObject)]"

text \<open>
  The module with the example of the second string made live: the class \<^verbatim>\<open>User\<close>
  with the required fields \<^verbatim>\<open>username\<close> and \<^verbatim>\<open>email\<close>, next to the names its
  imports bind.
\<close>

definition user_required :: pyval where
  "user_required = VList [VStr ''username'', VStr ''email'']"

definition User :: schema_class where
  "User =
     \<lparr>model_validate =
        (\<lambda>d. if dict_contains d ''username'' \<and> dict_contains d ''email'' then Inr ()
              else Inl (ValidationError (VList [VStr ''Field required'']))),
      model_json_schema = Inr [(''title'', VStr ''User''), (''required'', user_required)],
      model_fields = [''id'', ''username'', ''email'', ''created_at'', ''updated_at'']\<rparr>"

definition example_schemas :: "(string \<times> member) list" where
  "example_schemas =
     [(''BaseModel'', BaseModelClass), (''EmailStr'', OtherObject),
      (''Optional'', OtherObject), (''User'', ModelClass User)] @ shipped_schemas @
     [(''datetime'', OtherObject)]"

text \<open>
  A small in-memory store to run the code on: a collection is a list of documents, a
  filter matches the documents that hold each of its pairs, \<^verbatim>\<open>$set\<close> assigns the
  given fields to the first match.
\<close>

type_synonym mem_store = "(string \<times> doc list) list"

definition mem_docs :: "mem_store \<Rightarrow> string \<Rightarrow> doc list" where
  "mem_docs s c = (case dict_get s c of None \<Rightarrow> [] | Some ds \<Rightarrow> ds)"

definition matches :: "doc \<Rightarrow> doc \<Rightarrow> bool" where
  "matches f d = list_all (\<lambda>(k, v). dict_get d k = Some v) f"

definition not_a_dict :: lib_exn where
  "not_a_dict = Exception ''filter must be an instance of dict''"

definition mem_count_documents :: "mem_store \<Rightarrow> string \<Rightarrow> pyval \<Rightarrow> lib_exn + int" where
  "mem_count_documents s c f =
     (case f of VDict fd \<Rightarrow> Inr (int (length (filter (matches fd) (mem_docs s c))))
              | _ \<Rightarrow> Inl not_a_dict)"

definition mem_find ::
  "mem_store \<Rightarrow> string \<Rightarrow> pyval \<Rightarrow> int option \<Rightarrow> int option \<Rightarrow> lib_exn + doc list" where
  "mem_find s c f skip limit =
     (case f of
        VDict fd \<Rightarrow>
          (let found = filter (matches fd) (mem_docs s c);
               skipped = (case skip of None \<Rightarrow> found | Some k \<Rightarrow> drop (nat k) found)
           in Inr (case limit of
                     None \<Rightarrow> skipped
                   | Some l \<Rightarrow> if l = 0 then skipped else take (nat \<bar>l\<bar>) skipped))
      | _ \<Rightarrow> Inl not_a_dict)"

definition mem_insert_one :: "mem_store \<Rightarrow> string \<Rightarrow> doc \<Rightarrow> (lib_exn + pyval) \<times> mem_store" where
  "mem_insert_one s c d =
     (let oid = (case dict_get d ''_id'' of
                   None \<Rightarrow> VObjectId ''65f0a1b2c3d4e5f601234567''
                 | Some v \<Rightarrow> v)
      in (Inr oid, dict_set s c (mem_docs s c @ [dict_set d ''_id'' oid])))"

definition apply_set :: "doc \<Rightarrow> doc \<Rightarrow> doc" where
  "apply_set u d =
     (case dict_get u ''$set'' of
        Some (VDict fs) \<Rightarrow> foldl (\<lambda>acc (k, v). dict_set acc k v) d fs
      | _ \<Rightarrow> d)"

fun update_first :: "doc \<Rightarrow> doc \<Rightarrow> doc list \<Rightarrow> doc list \<times> update_result" where
  "update_first f u [] = ([], \<lparr>matched_count = 0, modified_count = 0\<rparr>)"
| "update_first f u (d # ds) =
     (if matches f d
      then (apply_set u d # ds,
            \<lparr>matched_count = 1, modified_count = (if apply_set u d = d then 0 else 1)\<rparr>)
      else (case update_first f u ds of (ds', r) \<Rightarrow> (d # ds', r)))"

definition mem_update_one ::
  "mem_store \<Rightarrow> string \<Rightarrow> doc \<Rightarrow> doc \<Rightarrow> (lib_exn + update_result) \<times> mem_store" where
  "mem_update_one s c f u =
     (case update_first f u (mem_docs s c) of
        (ds', r) \<Rightarrow> (Inr r, if matched_count r = 0 then s else dict_set s c ds'))"

fun delete_first :: "doc \<Rightarrow> doc list \<Rightarrow> doc list \<times> int" where
  "delete_first f [] = ([], 0)"
| "delete_first f (d # ds) =
     (if matches f d then (ds, 1)
      else (case delete_first f ds of (ds', n) \<Rightarrow> (d # ds', n)))"

definition mem_delete_one :: "mem_store \<Rightarrow> string \<Rightarrow> doc \<Rightarrow> (lib_exn + int) \<times> mem_store" where
  "mem_delete_one s c f =
     (case delete_first f (mem_docs s c) of
        (ds', n) \<Rightarrow> (Inr n, if n = 0 then s else dict_set s c ds'))"

text \<open>
  Stand-ins for the library functions, right on the inputs used below: \<^verbatim>\<open>str\<close> of a
  string, an ObjectId, the empty list or an exception (an \<^verbatim>\<open>HTTPException\<close> prints
  as status, colon, detail), \<^verbatim>\<open>str.lower\<close> of ASCII text, \<^verbatim>\<open>json.loads\<close> of the
  three JSON texts it accepts here, \<^verbatim>\<open>ObjectId\<close> of 24 hexadecimal digits.
\<close>

definition sample_str :: "pyval \<Rightarrow> string" where
  "sample_str v =
     (case v of
        VStr s \<Rightarrow> s
      | VObjectId s \<Rightarrow> s
      | VList xs \<Rightarrow> (if xs = [] then ''[]'' else ''<object>'')
      | _ \<Rightarrow> ''<object>'')"

definition status_text :: "nat \<Rightarrow> string" where
  "status_text status =
     (if status = 400 then ''400'' else if status = 404 then ''404''
      else if status = 500 then ''500'' else if status = 503 then ''503'' else ''<status>'')"

definition ascii_lower_char :: "char \<Rightarrow> char" where
  "ascii_lower_char c =
     (case map_of (zip ''ABCDEFGHIJKLMNOPQRSTUVWXYZ'' ''abcdefghijklmnopqrstuvwxyz'') c of
        None \<Rightarrow> c
      | Some l \<Rightarrow> l)"

definition ascii_lower :: "string \<Rightarrow> string" where
  "ascii_lower s = map ascii_lower_char s"

definition sample_exn_str :: "exn \<Rightarrow> string" where
  "sample_exn_str e =
     (case e of
        HTTPException status detail \<Rightarrow> status_text status @ '': '' @ detail
      | Raised x \<Rightarrow>
          (case x of ImportError m \<Rightarrow> m | JSONDecodeError m \<Rightarrow> m
                   | ValidationError es \<Rightarrow> ''validation error'' | Exception m \<Rightarrow> m))"

definition sample_json_loads :: "string \<Rightarrow> lib_exn + pyval" where
  "sample_json_loads t =
     (if t = ''{}'' then Inr (VDict [])
      else if t = ''[]'' then Inr (VList [])
      else if t = ''null'' then Inr VNone
      else Inl (JSONDecodeError ''Expecting value''))"

definition is_hex :: "char \<Rightarrow> bool" where
  "is_hex c = (c \<in> set ''0123456789abcdefABCDEF'')"

definition sample_ObjectId :: "string \<Rightarrow> lib_exn + pyval" where
  "sample_ObjectId t =
     (if length t = 24 \<and> list_all is_hex t then Inr (VObjectId (ascii_lower t))
      else Inl (Exception ''InvalidId''))"

definition sample_env :: "mem_store env" where
  "sample_env =
     \<lparr>py_str = sample_str,
      exn_str = sample_exn_str,
      str_lower = ascii_lower,
      json_loads = sample_json_loads,
      ObjectId = sample_ObjectId,
      import_schemas = Inr example_schemas,
      import_database = None,
      list_collection_names = (\<lambda>s. Inr (map fst s)),
      count_documents = mem_count_documents,
      find_cursor = mem_find,
      insert_one = mem_insert_one,
      update_one = mem_update_one,
      delete_one = mem_delete_one\<rparr>"

definition alice :: doc where
  "alice = [(''_id'', VObjectId ''65f0a1b2c3d4e5f601234500''),
            (''username'', VStr ''alice''), (''email'', VStr ''alice@example.com'')]"

definition sample_world :: "mem_store world" where
  "sample_world =
     \<lparr>db = Some [(''user'', [alice])], clock = (\<lambda>n. 1000 + n), reads = 0, calls = []\<rparr>"

definition blank_url :: "string \<Rightarrow> string option" where
  "blank_url name =
     (if name = ''DATABASE_URL'' then Some []
      else if name = ''DATABASE_NAME'' then Some ''app'' else None)"

definition both_set :: "string \<Rightarrow> string option" where
  "both_set name =
     (if name = ''DATABASE_URL'' then Some ''mongodb://localhost:27017''
      else if name = ''DATABASE_NAME'' then Some ''app'' else None)"

definition sample_connect :: "string \<Rightarrow> string \<Rightarrow> lib_exn + mem_store" where
  "sample_connect url name = Inr []"

section \<open>Notions used in the statements\<close>

text \<open>A dictionary carries a timestamp if it has one of the two keys the code stamps.\<close>

definition timestamped :: "doc \<Rightarrow> bool" where
  "timestamped d = (dict_contains d ''created_at'' \<or> dict_contains d ''updated_at'')"

text \<open>
  A world in which the stored document already carries the timestamp the clock will
  read next, so that an update with unchanged values modifies nothing.
\<close>

definition alice_stamped :: doc where
  "alice_stamped = alice @ [(''updated_at'', VDatetime 1000)]"

definition stamped_world :: "mem_store world" where
  "stamped_world =
     \<lparr>db = Some [(''user'', [alice_stamped])], clock = (\<lambda>n. 1000 + n), reads = 0, calls = []\<rparr>"




definition big_world :: "mem_store world" where
  "big_world =
     \<lparr>db = Some [(''user'', replicate 1001 alice)], clock = (\<lambda>n. 1000 + n), reads = 0,
      calls = []\<rparr>"


section \<open>Dictionaries\<close>

lemma dict_get_dict_set:
  "dict_get (dict_set d k v) k' = (if k' = k then Some v else dict_get d k')"
  by (induction d) (auto simp: dict_get_def)

section \<open>Status codes of the database endpoints\<close>

text \<open>
  With the database module importable and \<^verbatim>\<open>db\<close> being \<^verbatim>\<open>None\<close>, the four
  endpoints that re-raise an \<^verbatim>\<open>HTTPException\<close> answer 503.
\<close>

lemma db_None_503:
  "fst (get_collection_documents (E\<lparr>import_database := None\<rparr>) (w\<lparr>db := None\<rparr>) c l k f) =
     Inl not_connected"
  "fst (main_create_document (E\<lparr>import_database := None\<rparr>) (w\<lparr>db := None\<rparr>) c d) =
     Inl not_connected"
  "fst (main_update_document (E\<lparr>import_database := None\<rparr>) (w\<lparr>db := None\<rparr>) c i d) =
     Inl not_connected"
  "fst (main_delete_document (E\<lparr>import_database := None\<rparr>) (w\<lparr>db := None\<rparr>) c i) =
     Inl not_connected"
  by (simp_all add: get_collection_documents_def get_collection_documents_body_def
      main_create_document_def main_create_document_body_def
      main_update_document_def main_update_document_body_def
      main_delete_document_def main_delete_document_body_def
      reraise_or_500_def not_connected_def)

text \<open>
  With a database handle, an id that \<^verbatim>\<open>ObjectId\<close> rejects is answered 400 by the
  \<^verbatim>\<open>DELETE\<close> endpoint, and by the \<^verbatim>\<open>PUT\<close> endpoint once the validation has
  returned its report; a filter that is not empty and that \<^verbatim>\<open>json.loads\<close> rejects
  is answered 400 for a collection that exists.
\<close>

lemma validate_document_has_valid:
  "validate_document E c d = Inr v \<Longrightarrow> \<exists>b. dict_get v ''valid'' = Some (VBool b)"
  by (auto simp: validate_document_def Let_def dict_get_def
      split: sum.splits option.splits)

lemma invalid_id_400:
  assumes "import_database E = None" and "db w = Some s" and "ObjectId E i = Inl x"
  shows "fst (main_delete_document E w c i) = Inl invalid_id"
    and "validate_document E c d = Inr v \<Longrightarrow>
           status_of (fst (main_update_document E w c i d)) = Some 400"
proof -
  show "fst (main_delete_document E w c i) = Inl invalid_id"
    using assms
    by (simp add: main_delete_document_def main_delete_document_body_def reraise_or_500_def
        invalid_id_def)
  show "status_of (fst (main_update_document E w c i d)) = Some 400"
    if v: "validate_document E c d = Inr v"
  proof -
    from validate_document_has_valid[OF v] obtain b where
      b: "dict_get v ''valid'' = Some (VBool b)" by blast
    show ?thesis
      using assms v b
      by (cases b)
        (simp_all add: main_update_document_def main_update_document_body_def
          reraise_or_500_def invalid_id_def check_valid_def validation_failed_def
          status_of_def)
  qed
qed

lemma malformed_filter_400:
  assumes "import_database E = None" and "db w = Some s"
    and "list_collection_names E s = Inr names" and "c \<in> set names"
    and "f \<noteq> []" and "json_loads E f = Inl (JSONDecodeError m)"
  shows "fst (get_collection_documents E w c l k (Some f)) =
           Inl (HTTPException 400 ''Invalid filter JSON'')"
  using assms
  by (simp add: get_collection_documents_def get_collection_documents_body_def Let_def
      reraise_or_500_def)

text \<open>
  C1, at \<^verbatim>\<open>GET /api/database/collections\<close>: with the database module importable and
  \<^verbatim>\<open>db\<close> being \<^verbatim>\<open>None\<close>, \<^verbatim>\<open>list_collections\<close> raises the 503 inside its
  \<^verbatim>\<open>try\<close>, its only clause \<^verbatim>\<open>except Exception\<close> catches it, and the response has
  status 500 with the text of the 503 exception in its detail.
\<close>

theorem list_collections_db_None:
  "list_collections (E\<lparr>import_database := None\<rparr>) (w\<lparr>db := None\<rparr>) =
     (Inl (HTTPException 500 (''Error listing collections: '' @ exn_str E not_connected)),
      w\<lparr>db := None\<rparr>)"
  by (simp add: list_collections_def list_collections_body_def wrap_500_def)

section \<open>The document-access functions of database.py\<close>

text \<open>
  With a database handle each function is one application of a driver operation to the
  store behind the handle: what it returns is made from what the driver returns, and the
  store it leaves is the store the driver leaves.
\<close>

lemma create_document_connected:
  assumes "db w = Some s"
  shows "create_document E w c data =
           (case insert_one E s c
                   (dict_set (dict_set (case data of ModelArg m \<Rightarrow> model_dump m | DictArg d \<Rightarrow> d)
                       ''created_at'' (VDatetime (clock w (reads w))))
                     ''updated_at'' (VDatetime (clock w (Suc (reads w))))) of
              (r, s') \<Rightarrow>
                ((case r of Inl e \<Rightarrow> Inl e | Inr inserted_id \<Rightarrow> Inr (py_str E inserted_id)),
                 w\<lparr>reads := Suc (Suc (reads w)), db := Some s',
                   calls := calls w @ [InsertOne c
                     (dict_set (dict_set (case data of ModelArg m \<Rightarrow> model_dump m | DictArg d \<Rightarrow> d)
                         ''created_at'' (VDatetime (clock w (reads w))))
                       ''updated_at'' (VDatetime (clock w (Suc (reads w)))))]\<rparr>))"
  using assms
  by (simp add: create_document_def now_def Let_def split: prod.splits sum.splits)

lemma update_document_connected:
  assumes "db w = Some s"
  shows "update_document E w c f data =
           (case update_one E s c f
                   [(''$set'', VDict (dict_set
                       (case data of ModelArg m \<Rightarrow> model_dump_exclude_unset m | DictArg d \<Rightarrow> d)
                       ''updated_at'' (VDatetime (clock w (reads w)))))] of
              (r, s') \<Rightarrow>
                ((case r of Inl e \<Rightarrow> Inl e | Inr result \<Rightarrow> Inr (modified_count result > 0)),
                 w\<lparr>reads := Suc (reads w), db := Some s',
                   calls := calls w @ [UpdateOne c f
                     [(''$set'', VDict (dict_set
                         (case data of ModelArg m \<Rightarrow> model_dump_exclude_unset m | DictArg d \<Rightarrow> d)
                         ''updated_at'' (VDatetime (clock w (reads w)))))]]\<rparr>))"
  using assms
  by (simp add: update_document_def now_def Let_def split: prod.splits sum.splits)

lemma get_documents_connected:
  assumes "db w = Some s"
  shows "get_documents E w c fd l =
           (find_cursor E s c (VDict (case fd of None \<Rightarrow> [] | Some d \<Rightarrow> d)) None
              (case l of None \<Rightarrow> None | Some n \<Rightarrow> if n \<noteq> 0 then Some n else None),
            w\<lparr>calls := calls w @
               [Find c (VDict (case fd of None \<Rightarrow> [] | Some d \<Rightarrow> d)) None
                  (case l of None \<Rightarrow> None | Some n \<Rightarrow> if n \<noteq> 0 then Some n else None)]\<rparr>)"
  using assms by (simp add: get_documents_def Let_def)

lemma delete_document_connected:
  assumes "db w = Some s"
  shows "delete_document E w c f =
           (case delete_one E s c f of
              (r, s') \<Rightarrow>
                ((case r of Inl e \<Rightarrow> Inl e | Inr deleted_count \<Rightarrow> Inr (deleted_count > 0)),
                 w\<lparr>db := Some s', calls := calls w @ [DeleteOne c f]\<rparr>))"
  using assms
  by (simp add: delete_document_def Let_def split: prod.splits sum.splits)

lemma db_None_raises:
  assumes "db w = None"
  shows "create_document E w c data = (Inl (Exception not_available), w)"
    and "get_documents E w c fd l = (Inl (Exception not_available), w)"
    and "update_document E w c f data = (Inl (Exception not_available), w)"
    and "delete_document E w c f = (Inl (Exception not_initialized), w)"
  using assms
  by (simp_all add: create_document_def get_documents_def update_document_def
      delete_document_def)

text \<open>
  C3, as stated, fails: \<^verbatim>\<open>delete_document\<close> issues \<^verbatim>\<open>delete_one\<close> with the filter
  it was given, which carries no timestamp, and does not read the clock.
\<close>

theorem delete_document_adds_no_timestamp:
  "calls (snd (delete_document sample_env sample_world ''user'' [(''username'', VStr ''alice'')])) =
     [DeleteOne ''user'' [(''username'', VStr ''alice'')]] \<and>
   \<not> timestamped [(''username'', VStr ''alice'')] \<and>
   reads (snd (delete_document sample_env sample_world ''user'' [(''username'', VStr ''alice'')])) =
     reads sample_world"
  by (simp add: delete_document_def sample_env_def sample_world_def mem_delete_one_def
      mem_docs_def dict_get_def matches_def alice_def timestamped_def dict_contains_def Let_def)

text \<open>
  C3, amended: with a database handle, each of the four functions applies exactly one
  driver operation to the store behind the handle, returns what that application
  returns (the id as a string, whether a count is positive, the documents) and leaves
  the store that application leaves. \<^verbatim>\<open>create_document\<close> applies \<^verbatim>\<open>insert_one\<close> to
  the collection name and a copy of the data (the dump of a model) with
  \<^verbatim>\<open>created_at\<close> and \<^verbatim>\<open>updated_at\<close> set to two successive clock readings;
  \<^verbatim>\<open>update_document\<close> applies \<^verbatim>\<open>update_one\<close> to the collection name, the filter
  and \<^verbatim>\<open>$set\<close> of a copy of the data (the dump of the set fields of a model) with
  \<^verbatim>\<open>updated_at\<close> set to a clock reading; \<^verbatim>\<open>get_documents\<close> applies \<^verbatim>\<open>find\<close>
  and \<^verbatim>\<open>delete_document\<close> \<^verbatim>\<open>delete_one\<close> to the collection name and the filter
  (an absent filter as the empty one, a limit only if it is not zero), and these two
  read no clock.
\<close>

theorem document_access_forwarding:
  assumes "db w = Some s"
  shows "create_document E w c data =
           (case insert_one E s c
                   (dict_set (dict_set (case data of ModelArg m \<Rightarrow> model_dump m | DictArg d \<Rightarrow> d)
                       ''created_at'' (VDatetime (clock w (reads w))))
                     ''updated_at'' (VDatetime (clock w (Suc (reads w))))) of
              (r, s') \<Rightarrow>
                ((case r of Inl e \<Rightarrow> Inl e | Inr inserted_id \<Rightarrow> Inr (py_str E inserted_id)),
                 w\<lparr>reads := Suc (Suc (reads w)), db := Some s',
                   calls := calls w @ [InsertOne c
                     (dict_set (dict_set (case data of ModelArg m \<Rightarrow> model_dump m | DictArg d \<Rightarrow> d)
                         ''created_at'' (VDatetime (clock w (reads w))))
                       ''updated_at'' (VDatetime (clock w (Suc (reads w)))))]\<rparr>)) \<and>
         update_document E w c f data =
           (case update_one E s c f
                   [(''$set'', VDict (dict_set
                       (case data of ModelArg m \<Rightarrow> model_dump_exclude_unset m | DictArg d \<Rightarrow> d)
                       ''updated_at'' (VDatetime (clock w (reads w)))))] of
              (r, s') \<Rightarrow>
                ((case r of Inl e \<Rightarrow> Inl e | Inr result \<Rightarrow> Inr (modified_count result > 0)),
                 w\<lparr>reads := Suc (reads w), db := Some s',
                   calls := calls w @ [UpdateOne c f
                     [(''$set'', VDict (dict_set
                         (case data of ModelArg m \<Rightarrow> model_dump_exclude_unset m | DictArg d \<Rightarrow> d)
                         ''updated_at'' (VDatetime (clock w (reads w)))))]]\<rparr>)) \<and>
         get_documents E w c fd l =
           (find_cursor E s c (VDict (case fd of None \<Rightarrow> [] | Some d \<Rightarrow> d)) None
              (case l of None \<Rightarrow> None | Some n \<Rightarrow> if n \<noteq> 0 then Some n else None),
            w\<lparr>calls := calls w @
               [Find c (VDict (case fd of None \<Rightarrow> [] | Some d \<Rightarrow> d)) None
                  (case l of None \<Rightarrow> None | Some n \<Rightarrow> if n \<noteq> 0 then Some n else None)]\<rparr>) \<and>
         delete_document E w c f =
           (case delete_one E s c f of
              (r, s') \<Rightarrow>
                ((case r of Inl e \<Rightarrow> Inl e | Inr deleted_count \<Rightarrow> Inr (deleted_count > 0)),
                 w\<lparr>db := Some s', calls := calls w @ [DeleteOne c f]\<rparr>))"
  by (intro conjI create_document_connected[OF assms] update_document_connected[OF assms]
      get_documents_connected[OF assms] delete_document_connected[OF assms])

theorem document_access_forwarding_witness:
  "db sample_world = Some [(''user'', [alice])] \<and>
   fst (create_document sample_env sample_world ''user''
          (DictArg [(''username'', VStr ''bob'')])) = Inr ''65f0a1b2c3d4e5f601234567'' \<and>
   db (snd (create_document sample_env sample_world ''user''
              (DictArg [(''username'', VStr ''bob'')]))) =
     Some [(''user'', [alice, [(''username'', VStr ''bob''), (''created_at'', VDatetime 1000),
                               (''updated_at'', VDatetime 1001),
                               (''_id'', VObjectId ''65f0a1b2c3d4e5f601234567'')]])]"
proof -
  have h: "db sample_world = Some [(''user'', [alice])]"
    by (simp add: sample_world_def)
  have i: "insert_one sample_env [(''user'', [alice])] ''user''
             [(''username'', VStr ''bob''), (''created_at'', VDatetime 1000),
              (''updated_at'', VDatetime 1001)] =
           (Inr (VObjectId ''65f0a1b2c3d4e5f601234567''),
            [(''user'', [alice, [(''username'', VStr ''bob''), (''created_at'', VDatetime 1000),
                                 (''updated_at'', VDatetime 1001),
                                 (''_id'', VObjectId ''65f0a1b2c3d4e5f601234567'')]])])"
    by (simp add: sample_env_def mem_insert_one_def mem_docs_def dict_get_def Let_def)
  have p: "py_str sample_env (VObjectId ''65f0a1b2c3d4e5f601234567'') =
             ''65f0a1b2c3d4e5f601234567''"
    by (simp add: sample_env_def sample_str_def)
  have t: "clock sample_world (reads sample_world) = 1000"
    "clock sample_world (Suc (reads sample_world)) = 1001"
    by (simp_all add: sample_world_def)
  have "create_document sample_env sample_world ''user'' (DictArg [(''username'', VStr ''bob'')]) =
          (Inr ''65f0a1b2c3d4e5f601234567'',
           sample_world\<lparr>reads := Suc (Suc (reads sample_world)),
             db := Some [(''user'', [alice, [(''username'', VStr ''bob''),
                      (''created_at'', VDatetime 1000), (''updated_at'', VDatetime 1001),
                      (''_id'', VObjectId ''65f0a1b2c3d4e5f601234567'')]])],
             calls := calls sample_world @ [InsertOne ''user''
                      [(''username'', VStr ''bob''), (''created_at'', VDatetime 1000),
                       (''updated_at'', VDatetime 1001)]]\<rparr>)"
    using document_access_forwarding [OF h, where E = sample_env and c = "''user''"
        and data = "DictArg [(''username'', VStr ''bob'')]"]
    by (simp add: t i p)
  with h show ?thesis by simp
qed

text \<open>
  C4: with a database handle, the document \<^verbatim>\<open>create_document\<close> applies
  \<^verbatim>\<open>insert_one\<close> to has \<^verbatim>\<open>created_at\<close> and \<^verbatim>\<open>updated_at\<close> set to the two clock
  readings and agrees with the data (the dump of a model) on every other key; the
  \<^verbatim>\<open>$set\<close> \<^verbatim>\<open>update_document\<close> applies \<^verbatim>\<open>update_one\<close> to has \<^verbatim>\<open>updated_at\<close>
  set to the clock reading and agrees with the data (the dump of the set fields of a
  model) on every other key. \<^verbatim>\<open>get_documents\<close> returns what \<^verbatim>\<open>find\<close> gives for
  the filter and changes nothing in the world but the record of its call;
  \<^verbatim>\<open>delete_document\<close> applies \<^verbatim>\<open>delete_one\<close> to the filter as it is and reads no
  clock.
\<close>

theorem timestamp_stamping:
  assumes "db w = Some s"
  shows "(\<exists>d'. fst (create_document E w c data) =
                  (case fst (insert_one E s c d') of
                     Inl e \<Rightarrow> Inl e | Inr inserted_id \<Rightarrow> Inr (py_str E inserted_id)) \<and>
            db (snd (create_document E w c data)) = Some (snd (insert_one E s c d')) \<and>
            calls (snd (create_document E w c data)) = calls w @ [InsertOne c d'] \<and>
            dict_get d' ''created_at'' = Some (VDatetime (clock w (reads w))) \<and>
            dict_get d' ''updated_at'' = Some (VDatetime (clock w (Suc (reads w)))) \<and>
            (\<forall>k. k \<noteq> ''created_at'' \<and> k \<noteq> ''updated_at'' \<longrightarrow>
                 dict_get d' k =
                   dict_get (case data of ModelArg m \<Rightarrow> model_dump m | DictArg d \<Rightarrow> d) k)) \<and>
         (\<exists>u'. fst (update_document E w c f data) =
                  (case fst (update_one E s c f [(''$set'', VDict u')]) of
                     Inl e \<Rightarrow> Inl e | Inr result \<Rightarrow> Inr (modified_count result > 0)) \<and>
            db (snd (update_document E w c f data)) =
              Some (snd (update_one E s c f [(''$set'', VDict u')])) \<and>
            calls (snd (update_document E w c f data)) =
              calls w @ [UpdateOne c f [(''$set'', VDict u')]] \<and>
            dict_get u' ''updated_at'' = Some (VDatetime (clock w (reads w))) \<and>
            (\<forall>k. k \<noteq> ''updated_at'' \<longrightarrow>
                 dict_get u' k =
                   dict_get (case data of ModelArg m \<Rightarrow> model_dump_exclude_unset m
                                        | DictArg d \<Rightarrow> d) k)) \<and>
         get_documents E w c fd l =
           (find_cursor E s c (VDict (case fd of None \<Rightarrow> [] | Some x \<Rightarrow> x)) None
              (case l of None \<Rightarrow> None | Some n \<Rightarrow> if n \<noteq> 0 then Some n else None),
            w\<lparr>calls := calls w @
               [Find c (VDict (case fd of None \<Rightarrow> [] | Some x \<Rightarrow> x)) None
                  (case l of None \<Rightarrow> None | Some n \<Rightarrow> if n \<noteq> 0 then Some n else None)]\<rparr>) \<and>
         fst (delete_document E w c f) =
           (case fst (delete_one E s c f) of
              Inl e \<Rightarrow> Inl e | Inr deleted_count \<Rightarrow> Inr (deleted_count > 0)) \<and>
         db (snd (delete_document E w c f)) = Some (snd (delete_one E s c f)) \<and>
         reads (snd (delete_document E w c f)) = reads w \<and>
         calls (snd (delete_document E w c f)) = calls w @ [DeleteOne c f]"
proof (intro conjI)
  let ?d = "dict_set (dict_set (case data of ModelArg m \<Rightarrow> model_dump m | DictArg d \<Rightarrow> d)
               ''created_at'' (VDatetime (clock w (reads w))))
             ''updated_at'' (VDatetime (clock w (Suc (reads w))))"
  let ?u = "dict_set (case data of ModelArg m \<Rightarrow> model_dump_exclude_unset m | DictArg d \<Rightarrow> d)
               ''updated_at'' (VDatetime (clock w (reads w)))"
  show "\<exists>d'. fst (create_document E w c data) =
                  (case fst (insert_one E s c d') of
                     Inl e \<Rightarrow> Inl e | Inr inserted_id \<Rightarrow> Inr (py_str E inserted_id)) \<and>
            db (snd (create_document E w c data)) = Some (snd (insert_one E s c d')) \<and>
            calls (snd (create_document E w c data)) = calls w @ [InsertOne c d'] \<and>
            dict_get d' ''created_at'' = Some (VDatetime (clock w (reads w))) \<and>
            dict_get d' ''updated_at'' = Some (VDatetime (clock w (Suc (reads w)))) \<and>
            (\<forall>k. k \<noteq> ''created_at'' \<and> k \<noteq> ''updated_at'' \<longrightarrow>
                 dict_get d' k =
                   dict_get (case data of ModelArg m \<Rightarrow> model_dump m | DictArg d \<Rightarrow> d) k)"
    by (rule exI[of _ ?d])
      (simp add: create_document_connected[OF assms] split_beta dict_get_dict_set)
  show "\<exists>u'. fst (update_document E w c f data) =
                  (case fst (update_one E s c f [(''$set'', VDict u')]) of
                     Inl e \<Rightarrow> Inl e | Inr result \<Rightarrow> Inr (modified_count result > 0)) \<and>
            db (snd (update_document E w c f data)) =
              Some (snd (update_one E s c f [(''$set'', VDict u')])) \<and>
            calls (snd (update_document E w c f data)) =
              calls w @ [UpdateOne c f [(''$set'', VDict u')]] \<and>
            dict_get u' ''updated_at'' = Some (VDatetime (clock w (reads w))) \<and>
            (\<forall>k. k \<noteq> ''updated_at'' \<longrightarrow>
                 dict_get u' k =
                   dict_get (case data of ModelArg m \<Rightarrow> model_dump_exclude_unset m
                                        | DictArg d \<Rightarrow> d) k)"
    by (rule exI[of _ ?u])
      (simp add: update_document_connected[OF assms] split_beta dict_get_dict_set)
  show "get_documents E w c fd l =
           (find_cursor E s c (VDict (case fd of None \<Rightarrow> [] | Some x \<Rightarrow> x)) None
              (case l of None \<Rightarrow> None | Some n \<Rightarrow> if n \<noteq> 0 then Some n else None),
            w\<lparr>calls := calls w @
               [Find c (VDict (case fd of None \<Rightarrow> [] | Some x \<Rightarrow> x)) None
                  (case l of None \<Rightarrow> None | Some n \<Rightarrow> if n \<noteq> 0 then Some n else None)]\<rparr>)"
    by (rule get_documents_connected[OF assms])
  show "fst (delete_document E w c f) =
           (case fst (delete_one E s c f) of
              Inl e \<Rightarrow> Inl e | Inr deleted_count \<Rightarrow> Inr (deleted_count > 0))"
    and "db (snd (delete_document E w c f)) = Some (snd (delete_one E s c f))"
    and "reads (snd (delete_document E w c f)) = reads w"
    and "calls (snd (delete_document E w c f)) = calls w @ [DeleteOne c f]"
    by (simp_all add: delete_document_connected[OF assms] split_beta)
qed

theorem timestamp_stamping_witness:
  "db sample_world = Some [(''user'', [alice])] \<and>
   (\<exists>d'. db (snd (create_document sample_env sample_world ''user''
                    (DictArg [(''username'', VStr ''bob'')]))) =
            Some (snd (insert_one sample_env [(''user'', [alice])] ''user'' d')) \<and>
      dict_get d' ''created_at'' = Some (VDatetime 1000) \<and>
      dict_get d' ''updated_at'' = Some (VDatetime 1001) \<and>
      dict_get d' ''username'' = Some (VStr ''bob''))"
proof -
  have h: "db sample_world = Some [(''user'', [alice])]"
    by (simp add: sample_world_def)
  have t: "clock sample_world (reads sample_world) = 1000"
    "clock sample_world (Suc (reads sample_world)) = 1001"
    by (simp_all add: sample_world_def)
  note ts = timestamp_stamping [OF h, where E = sample_env and c = "''user''"
      and data = "DictArg [(''username'', VStr ''bob'')]" and f = "[]" and fd = None
      and l = None]
  from ts have "\<exists>d'. fst (create_document sample_env sample_world ''user''
                        (DictArg [(''username'', VStr ''bob'')])) =
                  (case fst (insert_one sample_env [(''user'', [alice])] ''user'' d') of
                     Inl e \<Rightarrow> Inl e | Inr inserted_id \<Rightarrow> Inr (py_str sample_env inserted_id)) \<and>
            db (snd (create_document sample_env sample_world ''user''
                       (DictArg [(''username'', VStr ''bob'')]))) =
              Some (snd (insert_one sample_env [(''user'', [alice])] ''user'' d')) \<and>
            calls (snd (create_document sample_env sample_world ''user''
                          (DictArg [(''username'', VStr ''bob'')]))) =
              calls sample_world @ [InsertOne ''user'' d'] \<and>
            dict_get d' ''created_at'' =
              Some (VDatetime (clock sample_world (reads sample_world))) \<and>
            dict_get d' ''updated_at'' =
              Some (VDatetime (clock sample_world (Suc (reads sample_world)))) \<and>
            (\<forall>k. k \<noteq> ''created_at'' \<and> k \<noteq> ''updated_at'' \<longrightarrow>
                 dict_get d' k =
                   dict_get (case DictArg [(''username'', VStr ''bob'')] of
                               ModelArg m \<Rightarrow> model_dump m | DictArg d \<Rightarrow> d) k)"
    by (rule conjunct1)
  then obtain d' where
    c: "db (snd (create_document sample_env sample_world ''user''
                   (DictArg [(''username'', VStr ''bob'')]))) =
          Some (snd (insert_one sample_env [(''user'', [alice])] ''user'' d'))"
    and a: "dict_get d' ''created_at'' = Some (VDatetime (clock sample_world (reads sample_world)))"
    and b: "dict_get d' ''updated_at'' =
              Some (VDatetime (clock sample_world (Suc (reads sample_world))))"
    and k: "\<forall>k. k \<noteq> ''created_at'' \<and> k \<noteq> ''updated_at'' \<longrightarrow>
                dict_get d' k =
                  dict_get (case DictArg [(''username'', VStr ''bob'')] of
                              ModelArg m \<Rightarrow> model_dump m | DictArg d \<Rightarrow> d) k"
    by blast
  from k have u: "dict_get d' ''username'' = Some (VStr ''bob'')"
    by (simp add: dict_get_def)
  from a b have ab: "dict_get d' ''created_at'' = Some (VDatetime 1000)"
    "dict_get d' ''updated_at'' = Some (VDatetime 1001)"
    by (simp_all add: t)
  from c ab u have "\<exists>d'. db (snd (create_document sample_env sample_world ''user''
                    (DictArg [(''username'', VStr ''bob'')]))) =
            Some (snd (insert_one sample_env [(''user'', [alice])] ''user'' d')) \<and>
      dict_get d' ''created_at'' = Some (VDatetime 1000) \<and>
      dict_get d' ''updated_at'' = Some (VDatetime 1001) \<and>
      dict_get d' ''username'' = Some (VStr ''bob'')"
    by (intro exI[of _ d'] conjI)
  with h show ?thesis by (rule conjI)
qed

text \<open>
  C7, as stated, fails: with \<^verbatim>\<open>DATABASE_URL\<close> set to the empty string and
  \<^verbatim>\<open>DATABASE_NAME\<close> set to \<^verbatim>\<open>app\<close>, both variables are set and \<^verbatim>\<open>db\<close> is
  \<^verbatim>\<open>None\<close>.
\<close>

theorem blank_url_db_None:
  "blank_url ''DATABASE_URL'' = Some [] \<and> blank_url ''DATABASE_NAME'' = Some ''app'' \<and>
   database_module sample_connect blank_url = Inr None"
  by (simp add: blank_url_def database_module_def str_truthy_def)

text \<open>
  C7, amended: when the module body of \<^verbatim>\<open>database.py\<close> completes, \<^verbatim>\<open>db\<close> is not
  \<^verbatim>\<open>None\<close> if and only if both \<^verbatim>\<open>DATABASE_URL\<close> and \<^verbatim>\<open>DATABASE_NAME\<close> are set to
  non-empty strings; and when \<^verbatim>\<open>db\<close> is \<^verbatim>\<open>None\<close>, each of the four
  document-access functions raises an exception, issues no driver call and leaves
  the world as it is.
\<close>

theorem db_handle_iff_env_nonempty:
  "(database_module connect getenv = Inr h \<longrightarrow>
      (h \<noteq> None) =
        (str_truthy (getenv ''DATABASE_URL'') \<and> str_truthy (getenv ''DATABASE_NAME''))) \<and>
   (db w = None \<longrightarrow>
      create_document E w c data = (Inl (Exception not_available), w) \<and>
      get_documents E w c fd l = (Inl (Exception not_available), w) \<and>
      update_document E w c f data = (Inl (Exception not_available), w) \<and>
      delete_document E w c f = (Inl (Exception not_initialized), w))"
proof -
  have "database_module connect getenv = Inr h \<Longrightarrow>
      (h \<noteq> None) =
        (str_truthy (getenv ''DATABASE_URL'') \<and> str_truthy (getenv ''DATABASE_NAME''))"
    by (auto simp: database_module_def str_truthy_def Let_def
        split: option.splits sum.splits if_splits)
  then show ?thesis
    using db_None_raises[of w] by blast
qed

theorem db_handle_iff_env_nonempty_witness:
  "database_module sample_connect both_set = Inr (Some []) \<and>
   str_truthy (both_set ''DATABASE_URL'') \<and> str_truthy (both_set ''DATABASE_NAME'') \<and>
   db (sample_world\<lparr>db := None\<rparr>) = None \<and>
   fst (create_document sample_env (sample_world\<lparr>db := None\<rparr>) ''user'' (DictArg [])) =
     Inl (Exception not_available) \<and>
   fst (delete_document sample_env (sample_world\<lparr>db := None\<rparr>) ''user'' []) =
     Inl (Exception not_initialized)"
proof -
  have h: "database_module sample_connect both_set = Inr (Some [])"
    by (simp add: database_module_def both_set_def sample_connect_def str_truthy_def)
  show ?thesis
    using h db_handle_iff_env_nonempty [where connect = sample_connect and getenv = both_set
        and h = "Some []" and w = "sample_world\<lparr>db := None\<rparr>" and E = sample_env
        and c = "''user''" and data = "DictArg []" and f = "[]"]
    by simp
qed

section \<open>The endpoints of main.py\<close>

lemma validate_document_error:
  "validate_document E c d = Inl e \<Longrightarrow> \<exists>detail. e = HTTPException 500 detail"
  by (auto simp: validate_document_def wrap_500_def Let_def split: sum.splits option.splits)

lemma check_valid_error:
  "check_valid E v = Some e \<Longrightarrow> (\<exists>detail. e = HTTPException 400 detail) \<or> (\<exists>x. e = Raised x)"
  by (auto simp: check_valid_def validation_failed_def split: option.splits if_splits)

lemma reraise_or_500_simps:
  "reraise_or_500 E p (HTTPException st dt) = HTTPException st dt"
  "reraise_or_500 E p (Raised x) = HTTPException 500 (p @ exn_str E (Raised x))"
  by (simp_all add: reraise_or_500_def wrap_500_def)


text \<open>
  What the create, update and delete endpoints do once they reach the call of
  \<^verbatim>\<open>database.py\<close>: one application of the driver operation to the store, whose
  outcome decides the response, and whose store is the store left.
\<close>

lemma main_create_document_reached:
  assumes "import_database E = None" and "db w = Some s"
    and "validate_document E c d = Inr v" and "check_valid E v = None"
  shows "main_create_document E w c d =
     (case insert_one E s c
             (dict_set (dict_set d ''created_at'' (VDatetime (clock w (reads w))))
                ''updated_at'' (VDatetime (clock w (Suc (reads w))))) of
        (r, s') \<Rightarrow>
          ((case r of
              Inl x \<Rightarrow> Inl (HTTPException 500 (''Error creating document: '' @ exn_str E (Raised x)))
            | Inr inserted_id \<Rightarrow>
                Inr [(''ok'', VBool True), (''id'', VStr (py_str E inserted_id)),
                     (''message'', VStr (''Document created in '' @ c))]),
           w\<lparr>reads := Suc (Suc (reads w)), db := Some s',
             calls := calls w @ [InsertOne c
               (dict_set (dict_set d ''created_at'' (VDatetime (clock w (reads w))))
                  ''updated_at'' (VDatetime (clock w (Suc (reads w)))))]\<rparr>))"
  using assms
  by (simp add: main_create_document_def main_create_document_body_def
      create_document_connected[OF assms(2)] reraise_or_500_simps split_beta
      split: sum.splits)

lemma main_update_document_reached:
  assumes "import_database E = None" and "db w = Some s"
    and "validate_document E c d = Inr v" and "check_valid E v = None"
    and "ObjectId E i = Inr oid"
  shows "main_update_document E w c i d =
     (case update_one E s c [(''_id'', oid)]
             [(''$set'', VDict (dict_set d ''updated_at'' (VDatetime (clock w (reads w)))))] of
        (r, s') \<Rightarrow>
          ((case r of
              Inl x \<Rightarrow> Inl (HTTPException 500 (''Error updating document: '' @ exn_str E (Raised x)))
            | Inr result \<Rightarrow>
                if modified_count result > 0
                then Inr [(''ok'', VBool True),
                          (''message'', VStr (''Document '' @ i @ '' updated in '' @ c))]
                else Inl document_not_found),
           w\<lparr>reads := Suc (reads w), db := Some s',
             calls := calls w @ [UpdateOne c [(''_id'', oid)]
               [(''$set'', VDict (dict_set d ''updated_at''
                                    (VDatetime (clock w (reads w)))))]]\<rparr>))"
  using assms
  by (simp add: main_update_document_def main_update_document_body_def
      update_document_connected[OF assms(2)] reraise_or_500_simps document_not_found_def
      split_beta split: sum.splits)


text \<open>
  The filter the collection endpoint hands to the driver: the empty dictionary for an
  absent or empty parameter, else what \<^verbatim>\<open>json.loads\<close> returns.
\<close>

lemma get_collection_documents_reached:
  assumes "import_database E = None" and "db w = Some s"
    and "list_collection_names E s = Inr names" and "c \<in> set names"
    and "filter_q = None \<and> flt = VDict [] \<or> filter_q = Some [] \<and> flt = VDict [] \<or>
         (\<exists>t. filter_q = Some t \<and> t \<noteq> [] \<and> json_loads E t = Inr flt)"
  shows "get_collection_documents E w c limit_q skip_q filter_q =
     (case count_documents E s c flt of
        Inl x \<Rightarrow>
          (Inl (HTTPException 500 (''Error fetching documents: '' @ exn_str E (Raised x))),
           w\<lparr>calls := calls w @ [ListCollectionNames, CountDocuments c flt]\<rparr>)
      | Inr total_count \<Rightarrow>
          (case find_cursor E s c flt (Some (case skip_q of None \<Rightarrow> 0 | Some k \<Rightarrow> k))
                  (Some (min (case limit_q of None \<Rightarrow> 100 | Some l \<Rightarrow> l) 1000)) of
             Inl x \<Rightarrow>
               Inl (HTTPException 500 (''Error fetching documents: '' @ exn_str E (Raised x)))
           | Inr documents \<Rightarrow>
               Inr [(''ok'', VBool True), (''collection'', VStr c),
                    (''documents'', VList (map (\<lambda>d. VDict (stringify_id E d)) documents)),
                    (''total'', VInt total_count),
                    (''limit'', VInt (min (case limit_q of None \<Rightarrow> 100 | Some l \<Rightarrow> l) 1000)),
                    (''skip'', VInt (case skip_q of None \<Rightarrow> 0 | Some k \<Rightarrow> k))],
           w\<lparr>calls := calls w @ [ListCollectionNames, CountDocuments c flt,
                 Find c flt (Some (case skip_q of None \<Rightarrow> 0 | Some k \<Rightarrow> k))
                   (Some (min (case limit_q of None \<Rightarrow> 100 | Some l \<Rightarrow> l) 1000))]\<rparr>))"
  using assms
  by (auto simp: get_collection_documents_def get_collection_documents_body_def Let_def
      reraise_or_500_simps split: sum.splits)

lemma dict_contains_get: "dict_contains d k = (dict_get d k \<noteq> None)"
  by (simp add: dict_contains_def dict_get_def)

lemma stringify_id_get:
  "dict_get (stringify_id E d) k =
     (if k = ''_id'' then map_option (\<lambda>v. VStr (py_str E v)) (dict_get d ''_id'')
      else dict_get d k)"
  by (auto simp: stringify_id_def dict_get_dict_set dict_contains_get split: option.splits)


lemma main_update_document_404:
  "(status_of (fst (main_update_document E w c i d)) = Some 404) =
     (import_database E = None \<and> db w \<noteq> None \<and>
      (\<exists>v. validate_document E c d = Inr v \<and> check_valid E v = None) \<and>
      (\<exists>oid. ObjectId E i = Inr oid \<and>
         fst (update_document E w c [(''_id'', oid)] (DictArg d)) = Inr False))"
  by (auto simp: main_update_document_def main_update_document_body_def status_of_def
      reraise_or_500_simps not_connected_def invalid_id_def document_not_found_def split_beta
      dest!: validate_document_error check_valid_error
      split: option.splits sum.splits if_splits)

lemma main_update_document_404_detail:
  "status_of (fst (main_update_document E w c i d)) = Some 404 \<Longrightarrow>
     fst (main_update_document E w c i d) = Inl document_not_found"
  by (auto simp: main_update_document_def main_update_document_body_def status_of_def
      reraise_or_500_simps not_connected_def invalid_id_def document_not_found_def split_beta
      dest!: validate_document_error check_valid_error
      split: option.splits sum.splits if_splits)

lemma main_delete_document_404:
  "(status_of (fst (main_delete_document E w c i)) = Some 404) =
     (import_database E = None \<and> db w \<noteq> None \<and>
      (\<exists>oid. ObjectId E i = Inr oid \<and>
         fst (delete_document E w c [(''_id'', oid)]) = Inr False))"
  by (auto simp: main_delete_document_def main_delete_document_body_def status_of_def
      reraise_or_500_simps not_connected_def invalid_id_def document_not_found_def split_beta
      split: option.splits sum.splits if_splits)

lemma main_delete_document_404_detail:
  "status_of (fst (main_delete_document E w c i)) = Some 404 \<Longrightarrow>
     fst (main_delete_document E w c i) = Inl document_not_found"
  by (auto simp: main_delete_document_def main_delete_document_body_def status_of_def
      reraise_or_500_simps not_connected_def invalid_id_def document_not_found_def split_beta
      split: option.splits sum.splits if_splits)

text \<open>
  C8, as stated, fails in the case it singles out: a \<^verbatim>\<open>PUT\<close> that matches the stored
  document and resends the values it has is answered 200, since the \<^verbatim>\<open>$set\<close> carries
  a new \<^verbatim>\<open>updated_at\<close> and the document is modified.
\<close>

theorem put_resending_values_is_200:
  "db sample_world = Some [(''user'', [alice])] \<and>
   dict_get alice ''_id'' = Some (VObjectId ''65f0a1b2c3d4e5f601234500'') \<and>
   dict_get alice ''username'' = Some (VStr ''alice'') \<and>
   dict_get alice ''email'' = Some (VStr ''alice@example.com'') \<and>
   fst (main_update_document sample_env sample_world ''user'' ''65f0a1b2c3d4e5f601234500''
          [(''username'', VStr ''alice''), (''email'', VStr ''alice@example.com'')]) =
     Inr [(''ok'', VBool True),
          (''message'', VStr ''Document 65f0a1b2c3d4e5f601234500 updated in user'')]"
  by (simp add: main_update_document_def main_update_document_body_def update_document_def
      validate_document_def check_valid_def now_def Let_def sample_env_def sample_world_def
      example_schemas_def shipped_schemas_def ascii_lower_def ascii_lower_char_def
      dict_get_def dict_contains_def User_def sample_ObjectId_def is_hex_def
      mem_update_one_def mem_docs_def matches_def apply_set_def alice_def)

text \<open>
  C8, amended: \<^verbatim>\<open>update_document\<close> returns whether the \<^verbatim>\<open>modified_count\<close> the
  driver reports for its \<^verbatim>\<open>update_one\<close> is positive, and \<^verbatim>\<open>delete_document\<close>
  whether the \<^verbatim>\<open>deleted_count\<close> of its \<^verbatim>\<open>delete_one\<close> is. The \<^verbatim>\<open>PUT\<close> and the
  \<^verbatim>\<open>DELETE\<close> endpoint answer 404 exactly when they reach that call and it returns
  \<^verbatim>\<open>False\<close>, and the 404 is \<^verbatim>\<open>Document not found\<close>. A \<^verbatim>\<open>PUT\<close> that reaches
  the call is answered by what the driver reports for a \<^verbatim>\<open>$set\<close> of the body with a
  new \<^verbatim>\<open>updated_at\<close>: 500 for an exception, 200 for a positive \<^verbatim>\<open>modified_count\<close>,
  404 otherwise; so a \<^verbatim>\<open>PUT\<close> that matches a document is answered 404 only if that
  \<^verbatim>\<open>$set\<close>, timestamp included, modifies nothing.
\<close>

theorem not_found_iff_not_modified:
  "(db w = Some s \<longrightarrow>
      fst (update_document E w c f data) =
        (case fst (update_one E s c f
                     [(''$set'', VDict (dict_set
                         (case data of ModelArg m \<Rightarrow> model_dump_exclude_unset m | DictArg x \<Rightarrow> x)
                         ''updated_at'' (VDatetime (clock w (reads w)))))]) of
           Inl e \<Rightarrow> Inl e | Inr result \<Rightarrow> Inr (modified_count result > 0)) \<and>
      fst (delete_document E w c f) =
        (case fst (delete_one E s c f) of
           Inl e \<Rightarrow> Inl e | Inr deleted_count \<Rightarrow> Inr (deleted_count > 0))) \<and>
   ((status_of (fst (main_update_document E w c i d)) = Some 404) =
      (import_database E = None \<and> db w \<noteq> None \<and>
       (\<exists>v. validate_document E c d = Inr v \<and> check_valid E v = None) \<and>
       (\<exists>oid. ObjectId E i = Inr oid \<and>
          fst (update_document E w c [(''_id'', oid)] (DictArg d)) = Inr False))) \<and>
   (status_of (fst (main_update_document E w c i d)) = Some 404 \<longrightarrow>
      fst (main_update_document E w c i d) = Inl document_not_found) \<and>
   ((status_of (fst (main_delete_document E w c i)) = Some 404) =
      (import_database E = None \<and> db w \<noteq> None \<and>
       (\<exists>oid. ObjectId E i = Inr oid \<and>
          fst (delete_document E w c [(''_id'', oid)]) = Inr False))) \<and>
   (status_of (fst (main_delete_document E w c i)) = Some 404 \<longrightarrow>
      fst (main_delete_document E w c i) = Inl document_not_found) \<and>
   (import_database E = None \<and> db w = Some s \<and>
    validate_document E c d = Inr v \<and> check_valid E v = None \<and> ObjectId E i = Inr oid \<longrightarrow>
      fst (main_update_document E w c i d) =
        (case fst (update_one E s c [(''_id'', oid)]
                     [(''$set'', VDict (dict_set d ''updated_at''
                                          (VDatetime (clock w (reads w)))))]) of
           Inl x \<Rightarrow> Inl (HTTPException 500 (''Error updating document: '' @ exn_str E (Raised x)))
         | Inr result \<Rightarrow>
             if modified_count result > 0
             then Inr [(''ok'', VBool True),
                       (''message'', VStr (''Document '' @ i @ '' updated in '' @ c))]
             else Inl document_not_found))"
proof (intro conjI impI)
  show "fst (update_document E w c f data) =
        (case fst (update_one E s c f
                     [(''$set'', VDict (dict_set
                         (case data of ModelArg m \<Rightarrow> model_dump_exclude_unset m | DictArg x \<Rightarrow> x)
                         ''updated_at'' (VDatetime (clock w (reads w)))))]) of
           Inl e \<Rightarrow> Inl e | Inr result \<Rightarrow> Inr (modified_count result > 0))"
    if "db w = Some s"
    by (simp add: update_document_connected[OF that] split_beta)
  show "fst (delete_document E w c f) =
        (case fst (delete_one E s c f) of
           Inl e \<Rightarrow> Inl e | Inr deleted_count \<Rightarrow> Inr (deleted_count > 0))"
    if "db w = Some s"
    by (simp add: delete_document_connected[OF that] split_beta)
  show "(status_of (fst (main_update_document E w c i d)) = Some 404) =
      (import_database E = None \<and> db w \<noteq> None \<and>
       (\<exists>v. validate_document E c d = Inr v \<and> check_valid E v = None) \<and>
       (\<exists>oid. ObjectId E i = Inr oid \<and>
          fst (update_document E w c [(''_id'', oid)] (DictArg d)) = Inr False))"
    by (rule main_update_document_404)
  show "fst (main_update_document E w c i d) = Inl document_not_found"
    if "status_of (fst (main_update_document E w c i d)) = Some 404"
    using that by (rule main_update_document_404_detail)
  show "(status_of (fst (main_delete_document E w c i)) = Some 404) =
      (import_database E = None \<and> db w \<noteq> None \<and>
       (\<exists>oid. ObjectId E i = Inr oid \<and>
          fst (delete_document E w c [(''_id'', oid)]) = Inr False))"
    by (rule main_delete_document_404)
  show "fst (main_delete_document E w c i) = Inl document_not_found"
    if "status_of (fst (main_delete_document E w c i)) = Some 404"
    using that by (rule main_delete_document_404_detail)
  show "fst (main_update_document E w c i d) =
        (case fst (update_one E s c [(''_id'', oid)]
                     [(''$set'', VDict (dict_set d ''updated_at''
                                          (VDatetime (clock w (reads w)))))]) of
           Inl x \<Rightarrow> Inl (HTTPException 500 (''Error updating document: '' @ exn_str E (Raised x)))
         | Inr result \<Rightarrow>
             if modified_count result > 0
             then Inr [(''ok'', VBool True),
                       (''message'', VStr (''Document '' @ i @ '' updated in '' @ c))]
             else Inl document_not_found)"
    if "import_database E = None \<and> db w = Some s \<and>
        validate_document E c d = Inr v \<and> check_valid E v = None \<and> ObjectId E i = Inr oid"
    using that
    by (simp add: main_update_document_reached[of E w s c d v i oid] split_beta)
qed

lemma sample_validate_alice:
  "validate_document sample_env ''user''
     [(''username'', VStr ''alice''), (''email'', VStr ''alice@example.com'')] =
   Inr [(''ok'', VBool True), (''valid'', VBool True)]"
  by (simp add: validate_document_def sample_env_def example_schemas_def shipped_schemas_def
      ascii_lower_def ascii_lower_char_def dict_get_def User_def dict_contains_def)

theorem not_found_iff_not_modified_witness:
  "import_database sample_env = None \<and>
   db stamped_world = Some [(''user'', [alice_stamped])] \<and>
   ObjectId sample_env ''65f0a1b2c3d4e5f601234500'' = Inr (VObjectId ''65f0a1b2c3d4e5f601234500'') \<and>
   update_one sample_env [(''user'', [alice_stamped])] ''user''
     [(''_id'', VObjectId ''65f0a1b2c3d4e5f601234500'')]
     [(''$set'', VDict [(''username'', VStr ''alice''), (''email'', VStr ''alice@example.com''),
                        (''updated_at'', VDatetime 1000)])] =
     (Inr \<lparr>matched_count = 1, modified_count = 0\<rparr>, [(''user'', [alice_stamped])]) \<and>
   fst (main_update_document sample_env stamped_world ''user'' ''65f0a1b2c3d4e5f601234500''
          [(''username'', VStr ''alice''), (''email'', VStr ''alice@example.com'')]) =
     Inl document_not_found"
proof -
  have h1: "import_database sample_env = None"
    by (simp add: sample_env_def)
  have h2: "db stamped_world = Some [(''user'', [alice_stamped])]"
    by (simp add: stamped_world_def)
  have h3: "check_valid sample_env [(''ok'', VBool True), (''valid'', VBool True)] = None"
    by (simp add: check_valid_def dict_get_def)
  have h4: "ObjectId sample_env ''65f0a1b2c3d4e5f601234500'' =
              Inr (VObjectId ''65f0a1b2c3d4e5f601234500'')"
    by (simp add: sample_env_def sample_ObjectId_def is_hex_def ascii_lower_def
        ascii_lower_char_def)
  have h5: "update_one sample_env [(''user'', [alice_stamped])] ''user''
     [(''_id'', VObjectId ''65f0a1b2c3d4e5f601234500'')]
     [(''$set'', VDict [(''username'', VStr ''alice''), (''email'', VStr ''alice@example.com''),
                        (''updated_at'', VDatetime 1000)])] =
     (Inr \<lparr>matched_count = 1, modified_count = 0\<rparr>, [(''user'', [alice_stamped])])"
    by (simp add: sample_env_def mem_update_one_def mem_docs_def dict_get_def matches_def
        alice_stamped_def alice_def apply_set_def)
  have t: "clock stamped_world (reads stamped_world) = 1000"
    by (simp add: stamped_world_def)
  show ?thesis
    using h1 h2 h3 h4 h5 sample_validate_alice
      not_found_iff_not_modified [where E = sample_env and w = stamped_world
        and s = "[(''user'', [alice_stamped])]" and c = "''user''"
        and i = "''65f0a1b2c3d4e5f601234500''"
        and d = "[(''username'', VStr ''alice''), (''email'', VStr ''alice@example.com'')]"
        and v = "[(''ok'', VBool True), (''valid'', VBool True)]"
        and oid = "VObjectId ''65f0a1b2c3d4e5f601234500''"]
    by (simp add: t)
qed

text \<open>
  The response of the collection endpoint, once the collection is known to exist and
  the filter is read: the documents are those \<^verbatim>\<open>find\<close> gives for the requested skip
  and the minimum of the requested limit (100 when absent) and 1000, each with its
  \<^verbatim>\<open>_id\<close>, where present, replaced by its \<^verbatim>\<open>str\<close>; that limit and that skip are echoed.
\<close>

lemma get_collection_documents_response:
  assumes "import_database E = None" and "db w = Some s"
    and "list_collection_names E s = Inr names" and "c \<in> set names"
    and "filter_q = None \<and> flt = VDict [] \<or> filter_q = Some [] \<and> flt = VDict [] \<or>
         (\<exists>t. filter_q = Some t \<and> t \<noteq> [] \<and> json_loads E t = Inr flt)"
    and "count_documents E s c flt = Inr total_count"
    and "find_cursor E s c flt (Some (case skip_q of None \<Rightarrow> 0 | Some k \<Rightarrow> k))
           (Some (min (case limit_q of None \<Rightarrow> 100 | Some l \<Rightarrow> l) 1000)) = Inr documents"
  shows "fst (get_collection_documents E w c limit_q skip_q filter_q) =
           Inr [(''ok'', VBool True), (''collection'', VStr c),
                (''documents'', VList (map (\<lambda>d. VDict (stringify_id E d)) documents)),
                (''total'', VInt total_count),
                (''limit'', VInt (min (case limit_q of None \<Rightarrow> 100 | Some l \<Rightarrow> l) 1000)),
                (''skip'', VInt (case skip_q of None \<Rightarrow> 0 | Some k \<Rightarrow> k))]"
  by (simp add: get_collection_documents_reached[OF assms(1-5)] assms(6,7))

text \<open>
  C9, at \<^verbatim>\<open>limit=0\<close>: the minimum of 0 and 1000 is 0, \<^verbatim>\<open>find\<close> is run with the limit
  0, which for the driver means no limit, and a collection of 1001 documents comes back
  whole, 1001 documents in a response that echoes the limit 0; the endpoint's
  documentation promises at most 1000.
\<close>

theorem limit_zero_returns_all:
  "fst (get_collection_documents sample_env big_world ''user'' (Some 0) None None) =
     Inr [(''ok'', VBool True), (''collection'', VStr ''user''),
          (''documents'',
             VList (replicate 1001
               (VDict [(''_id'', VStr ''65f0a1b2c3d4e5f601234500''),
                       (''username'', VStr ''alice''),
                       (''email'', VStr ''alice@example.com'')]))),
          (''total'', VInt 1001), (''limit'', VInt 0), (''skip'', VInt 0)] \<and>
   (1000::nat) <
     length (replicate 1001
               (VDict [(''_id'', VStr ''65f0a1b2c3d4e5f601234500''),
                       (''username'', VStr ''alice''),
                       (''email'', VStr ''alice@example.com'')]))"
proof -
  have h1: "import_database sample_env = None"
    by (simp add: sample_env_def)
  have h2: "db big_world = Some [(''user'', replicate 1001 alice)]"
    by (simp add: big_world_def)
  have h3: "list_collection_names sample_env [(''user'', replicate 1001 alice)] = Inr [''user'']"
    by (simp add: sample_env_def)
  have h4: "''user'' \<in> set [''user'']"
    by simp
  have h5: "(None :: string option) = None \<and> VDict [] = VDict [] \<or>
            (None :: string option) = Some [] \<and> VDict [] = VDict [] \<or>
            (\<exists>t. (None :: string option) = Some t \<and> t \<noteq> [] \<and>
                 json_loads sample_env t = Inr (VDict []))"
    by simp
  have m: "filter (matches []) (replicate 1001 alice) = replicate 1001 alice"
    by (simp add: matches_def)
  have d: "mem_docs [(''user'', replicate 1001 alice)] ''user'' = replicate 1001 alice"
    by (simp add: mem_docs_def dict_get_def)
  have h6: "count_documents sample_env [(''user'', replicate 1001 alice)] ''user'' (VDict []) =
              Inr 1001"
    by (simp add: sample_env_def mem_count_documents_def d m)
  have h7: "find_cursor sample_env [(''user'', replicate 1001 alice)] ''user'' (VDict [])
              (Some (case None of None \<Rightarrow> 0 | Some k \<Rightarrow> k))
              (Some (min (case Some 0 of None \<Rightarrow> 100 | Some l \<Rightarrow> l) 1000)) =
            Inr (replicate 1001 alice)"
    by (simp add: sample_env_def mem_find_def d m)
  have st: "stringify_id sample_env alice =
              [(''_id'', VStr ''65f0a1b2c3d4e5f601234500''), (''username'', VStr ''alice''),
               (''email'', VStr ''alice@example.com'')]"
    by (simp add: stringify_id_def dict_contains_def dict_get_def alice_def sample_env_def
        sample_str_def)
  show ?thesis
    using get_collection_documents_response[OF h1 h2 h3 h4 h5 h6 h7]
    by (simp add: st)
qed

section \<open>Schemas and validation\<close>

lemma collect_schemas_no_model:
  "list_all (\<lambda>(name, obj). \<not> is_model obj) members \<Longrightarrow> collect_schemas members acc = acc"
  by (induction members acc rule: collect_schemas.induct) (auto split: member.splits)

lemma build_schema_map_no_model:
  "list_all (\<lambda>(name, obj). \<not> is_model obj) members \<Longrightarrow>
     build_schema_map lw members acc = acc"
  by (induction lw members acc rule: build_schema_map.induct) (auto split: member.splits)

lemma shipped_schemas_no_model: "list_all (\<lambda>(name, obj). \<not> is_model obj) shipped_schemas"
  by (simp add: shipped_schemas_def)

text \<open>
  C6: with the schemas module as shipped, \<^verbatim>\<open>GET /api/database/schemas\<close> returns
  \<^verbatim>\<open>ok\<close> with an empty \<^verbatim>\<open>schemas\<close> map; for every collection name and document
  the validate endpoint reports \<^verbatim>\<open>valid\<close> with the skip message, the check of the
  create and update endpoints passes on that report, and so the create endpoint issues
  its insert for any document and the update endpoint goes on to the document id.
\<close>

theorem shipped_schemas_skip_validation:
  "get_all_schemas (E\<lparr>import_schemas := Inr shipped_schemas\<rparr>) =
     Inr [(''ok'', VBool True), (''schemas'', VDict [])] \<and>
   validate_document (E\<lparr>import_schemas := Inr shipped_schemas\<rparr>) c d =
     Inr [(''ok'', VBool True), (''valid'', VBool True), (''message'', VStr skip_message)] \<and>
   check_valid (E\<lparr>import_schemas := Inr shipped_schemas\<rparr>)
     [(''ok'', VBool True), (''valid'', VBool True), (''message'', VStr skip_message)] = None \<and>
   calls (snd (main_create_document
                 (E\<lparr>import_schemas := Inr shipped_schemas, import_database := None\<rparr>)
                 (w\<lparr>db := Some s\<rparr>) c d)) =
     calls w @ [InsertOne c
       (dict_set (dict_set d ''created_at'' (VDatetime (clock w (reads w))))
          ''updated_at'' (VDatetime (clock w (Suc (reads w)))))] \<and>
   main_update_document_body
       (E\<lparr>import_schemas := Inr shipped_schemas, import_database := None\<rparr>)
       (w\<lparr>db := Some s\<rparr>) c i d =
     (case ObjectId E i of
        Inl e \<Rightarrow> (Inl invalid_id, w\<lparr>db := Some s\<rparr>)
      | Inr obj_id \<Rightarrow>
          (case update_document
                  (E\<lparr>import_schemas := Inr shipped_schemas, import_database := None\<rparr>)
                  (w\<lparr>db := Some s\<rparr>) c [(''_id'', obj_id)] (DictArg d) of
             (Inl e, w') \<Rightarrow> (Inl (Raised e), w')
           | (Inr success, w') \<Rightarrow>
               if \<not> success then (Inl document_not_found, w')
               else (Inr [(''ok'', VBool True),
                          (''message'', VStr (''Document '' @ i @ '' updated in '' @ c))], w')))"
proof -
  let ?E = "E\<lparr>import_schemas := Inr shipped_schemas\<rparr>"
  let ?E' = "E\<lparr>import_schemas := Inr shipped_schemas, import_database := None\<rparr>"
  let ?v = "[(''ok'', VBool True), (''valid'', VBool True), (''message'', VStr skip_message)]"
  have g: "get_all_schemas ?E = Inr [(''ok'', VBool True), (''schemas'', VDict [])]"
    by (simp add: get_all_schemas_def collect_schemas_no_model[OF shipped_schemas_no_model])
  have v: "validate_document ?E c d = Inr ?v"
    by (simp add: validate_document_def build_schema_map_no_model[OF shipped_schemas_no_model]
        dict_get_def)
  have v': "validate_document ?E' c d = Inr ?v"
    by (simp add: validate_document_def build_schema_map_no_model[OF shipped_schemas_no_model]
        dict_get_def)
  have k: "check_valid ?E ?v = None"
    by (simp add: check_valid_def dict_get_def)
  have k': "check_valid ?E' ?v = None"
    by (simp add: check_valid_def dict_get_def)
  have cr: "calls (snd (main_create_document ?E' (w\<lparr>db := Some s\<rparr>) c d)) =
     calls w @ [InsertOne c
       (dict_set (dict_set d ''created_at'' (VDatetime (clock w (reads w))))
          ''updated_at'' (VDatetime (clock w (Suc (reads w)))))]"
  proof -
    have dbs: "db (w\<lparr>db := Some s\<rparr>) = Some s"
      by simp
    show ?thesis
      by (simp add: main_create_document_def main_create_document_body_def v' k'
          create_document_connected[OF dbs] split_beta split: sum.splits)
  qed
  have up: "main_update_document_body ?E' (w\<lparr>db := Some s\<rparr>) c i d =
     (case ObjectId E i of
        Inl e \<Rightarrow> (Inl invalid_id, w\<lparr>db := Some s\<rparr>)
      | Inr obj_id \<Rightarrow>
          (case update_document ?E' (w\<lparr>db := Some s\<rparr>) c [(''_id'', obj_id)] (DictArg d) of
             (Inl e, w') \<Rightarrow> (Inl (Raised e), w')
           | (Inr success, w') \<Rightarrow>
               if \<not> success then (Inl document_not_found, w')
               else (Inr [(''ok'', VBool True),
                          (''message'', VStr (''Document '' @ i @ '' updated in '' @ c))], w')))"
    by (simp add: main_update_document_body_def v' k')
  from g v k cr up show ?thesis by simp
qed

section \<open>Validation before a write\<close>

lemma named_models_Cons:
  "named_models lw ((name, obj) # members) c =
     (case obj of ModelClass cls \<Rightarrow> if lw name = c then [cls] else [] | _ \<Rightarrow> []) @
     named_models lw members c"
  by (simp add: named_models_def)

lemma build_schema_map_lookup:
  "dict_get (build_schema_map lw members acc) c =
     (case schema_for lw members c of None \<Rightarrow> dict_get acc c | Some cls \<Rightarrow> Some cls)"
proof (induction members arbitrary: acc)
  case Nil
  then show ?case by (simp add: schema_for_def named_models_def)
next
  case (Cons m members)
  obtain name obj where m: "m = (name, obj)" by (cases m)
  show ?case
  proof (cases "rev (named_models lw members c)")
    case Nil
    then have "schema_for lw members c = None" by (simp add: schema_for_def)
    with Nil Cons.IH m show ?thesis
      by (auto simp: schema_for_def named_models_Cons dict_get_dict_set split: member.splits)
  next
    case (Cons cls rest)
    then have "schema_for lw members c = Some cls" by (simp add: schema_for_def)
    with Cons Cons.IH m show ?thesis
      by (auto simp: schema_for_def named_models_Cons split: member.splits)
  qed
qed

lemma schema_map_is_schema_for:
  "dict_get (build_schema_map lw members []) c = schema_for lw members c"
proof -
  have "dict_get ([] :: (string \<times> schema_class) list) c = None"
    by (simp add: dict_get_def)
  then show ?thesis
    using build_schema_map_lookup[of lw members "[]" c] by (simp split: option.splits)
qed

lemma schema_for_None_iff:
  "(schema_for lw members c = None) =
     (\<not> (\<exists>name cls. (name, ModelClass cls) \<in> set members \<and> lw name = c))"
proof -
  have "(named_models lw members c = []) =
          (\<not> (\<exists>name cls. (name, ModelClass cls) \<in> set members \<and> lw name = c))"
  proof (induction members)
    case Nil
    then show ?case by (simp add: named_models_def)
  next
    case (Cons m members)
    obtain name obj where m: "m = (name, obj)" by (cases m)
    show ?case
      using Cons.IH by (auto simp: m named_models_Cons split: member.splits)
  qed
  moreover have "(schema_for lw members c = None) = (rev (named_models lw members c) = [])"
    by (simp add: schema_for_def split: list.splits)
  ultimately show ?thesis
    by simp
qed

lemma validate_document_schema_for:
  assumes "import_schemas E = Inr members"
  shows "validate_document E c d =
     (case schema_for (str_lower E) members c of
        None \<Rightarrow>
          Inr [(''ok'', VBool True), (''valid'', VBool True), (''message'', VStr skip_message)]
      | Some cls \<Rightarrow>
          (case model_validate cls d of
             Inr u \<Rightarrow> Inr [(''ok'', VBool True), (''valid'', VBool True)]
           | Inl ve \<Rightarrow>
               Inr [(''ok'', VBool True), (''valid'', VBool False),
                    (''errors'', (case ve of ValidationError es \<Rightarrow> es | _ \<Rightarrow> VList []))]))"
  using assms
  by (simp add: validate_document_def schema_map_is_schema_for Let_def
      split: option.splits sum.splits)

lemma check_valid_simps:
  "check_valid E [(''ok'', VBool True), (''valid'', VBool True), (''message'', m)] = None"
  "check_valid E [(''ok'', VBool True), (''valid'', VBool True)] = None"
  "check_valid E [(''ok'', VBool True), (''valid'', VBool False), (''errors'', es)] =
     Some (HTTPException 400 (''Validation failed: '' @ py_str E es))"
  by (simp_all add: check_valid_def validation_failed_def dict_get_def)

lemma main_invalid_no_write:
  assumes "import_database E = None"
    and "validate_document E c d = Inr v" and "check_valid E v = Some (HTTPException 400 m)"
  shows "main_create_document E w c d =
           (Inl (if db w = None then not_connected else HTTPException 400 m), w)"
    and "main_update_document E w c i d =
           (Inl (if db w = None then not_connected else HTTPException 400 m), w)"
  using assms
  by (auto simp: main_create_document_def main_create_document_body_def
      main_update_document_def main_update_document_body_def reraise_or_500_simps
      not_connected_def split: option.splits)

text \<open>
  C2: let the schemas module and the database module be importable. The schema a
  collection name selects is the model class whose lowercased name is the collection
  name (the last listed, should several names coincide), and there is none exactly
  when the module has no such class. If there is one and the request body fails its
  validation, the create and the update endpoint answer 400 (503 when \<^verbatim>\<open>db\<close> is
  \<^verbatim>\<open>None\<close>, which is tested first) and leave the world as it is: the store is
  untouched and no driver call is issued. If the body passes, or if there is no such
  class, in which case the validation reports \<^verbatim>\<open>valid\<close> with the skip message, the
  write proceeds: the create endpoint applies \<^verbatim>\<open>insert_one\<close> to the store and the
  stamped body, the update endpoint, given a well-formed id, applies \<^verbatim>\<open>update_one\<close>
  to the store, the id and the stamped body, and each answers by the outcome of that
  application and leaves the store it leaves.
\<close>

theorem validation_before_write:
  assumes "import_schemas E = Inr members" and "import_database E = None"
  shows
   "(schema_for (str_lower E) members c = Some cls \<and> model_validate cls d = Inl ve \<longrightarrow>
       status_of (fst (main_create_document E w c d)) = Some (if db w = None then 503 else 400) \<and>
       snd (main_create_document E w c d) = w \<and>
       status_of (fst (main_update_document E w c i d)) = Some (if db w = None then 503 else 400) \<and>
       snd (main_update_document E w c i d) = w) \<and>
    ((schema_for (str_lower E) members c = Some cls \<and> model_validate cls d = Inr ()) \<or>
     schema_for (str_lower E) members c = None \<longrightarrow>
       db w = Some s \<longrightarrow>
       main_create_document E w c d =
         (case insert_one E s c
                 (dict_set (dict_set d ''created_at'' (VDatetime (clock w (reads w))))
                    ''updated_at'' (VDatetime (clock w (Suc (reads w))))) of
            (r, s') \<Rightarrow>
              ((case r of
                  Inl x \<Rightarrow>
                    Inl (HTTPException 500 (''Error creating document: '' @ exn_str E (Raised x)))
                | Inr inserted_id \<Rightarrow>
                    Inr [(''ok'', VBool True), (''id'', VStr (py_str E inserted_id)),
                         (''message'', VStr (''Document created in '' @ c))]),
               w\<lparr>reads := Suc (Suc (reads w)), db := Some s',
                 calls := calls w @ [InsertOne c
                   (dict_set (dict_set d ''created_at'' (VDatetime (clock w (reads w))))
                      ''updated_at'' (VDatetime (clock w (Suc (reads w)))))]\<rparr>)) \<and>
       (ObjectId E i = Inr oid \<longrightarrow>
          main_update_document E w c i d =
            (case update_one E s c [(''_id'', oid)]
                    [(''$set'', VDict (dict_set d ''updated_at''
                                         (VDatetime (clock w (reads w)))))] of
               (r, s') \<Rightarrow>
                 ((case r of
                     Inl x \<Rightarrow>
                       Inl (HTTPException 500
                              (''Error updating document: '' @ exn_str E (Raised x)))
                   | Inr result \<Rightarrow>
                       if modified_count result > 0
                       then Inr [(''ok'', VBool True),
                                 (''message'', VStr (''Document '' @ i @ '' updated in '' @ c))]
                       else Inl document_not_found),
                  w\<lparr>reads := Suc (reads w), db := Some s',
                    calls := calls w @ [UpdateOne c [(''_id'', oid)]
                      [(''$set'', VDict (dict_set d ''updated_at''
                                           (VDatetime (clock w (reads w)))))]]\<rparr>)))) \<and>
    (schema_for (str_lower E) members c = None \<longrightarrow>
       validate_document E c d =
         Inr [(''ok'', VBool True), (''valid'', VBool True), (''message'', VStr skip_message)]) \<and>
    (schema_for (str_lower E) members c = None) =
       (\<not> (\<exists>name k. (name, ModelClass k) \<in> set members \<and> str_lower E name = c))"
proof (intro conjI impI)
  note v = validate_document_schema_for[OF assms(1), of c d]
  have fail: "main_create_document E w c d =
                (Inl (if db w = None then not_connected
                      else HTTPException 400 (''Validation failed: '' @
                        py_str E (case ve of ValidationError es \<Rightarrow> es | _ \<Rightarrow> VList []))), w) \<and>
              main_update_document E w c i d =
                (Inl (if db w = None then not_connected
                      else HTTPException 400 (''Validation failed: '' @
                        py_str E (case ve of ValidationError es \<Rightarrow> es | _ \<Rightarrow> VList []))), w)"
    if "schema_for (str_lower E) members c = Some cls \<and> model_validate cls d = Inl ve"
    using main_invalid_no_write[OF assms(2), where c = c and d = d
        and v = "[(''ok'', VBool True), (''valid'', VBool False),
          (''errors'', (case ve of ValidationError es \<Rightarrow> es | _ \<Rightarrow> VList []))]"
        and m = "''Validation failed: '' @
          py_str E (case ve of ValidationError es \<Rightarrow> es | _ \<Rightarrow> VList [])"
        and w = w] v that
    by (simp add: check_valid_simps)
  show "status_of (fst (main_create_document E w c d)) = Some (if db w = None then 503 else 400)"
    and "snd (main_create_document E w c d) = w"
    and "status_of (fst (main_update_document E w c i d)) =
           Some (if db w = None then 503 else 400)"
    and "snd (main_update_document E w c i d) = w"
    if "schema_for (str_lower E) members c = Some cls \<and> model_validate cls d = Inl ve"
    using fail[OF that] by (simp_all add: status_of_def not_connected_def)
  have ok: "\<exists>v. validate_document E c d = Inr v \<and> check_valid E v = None"
    if "(schema_for (str_lower E) members c = Some cls \<and> model_validate cls d = Inr ()) \<or>
        schema_for (str_lower E) members c = None"
    using v that by (auto simp: check_valid_simps)
  show "main_create_document E w c d =
         (case insert_one E s c
                 (dict_set (dict_set d ''created_at'' (VDatetime (clock w (reads w))))
                    ''updated_at'' (VDatetime (clock w (Suc (reads w))))) of
            (r, s') \<Rightarrow>
              ((case r of
                  Inl x \<Rightarrow>
                    Inl (HTTPException 500 (''Error creating document: '' @ exn_str E (Raised x)))
                | Inr inserted_id \<Rightarrow>
                    Inr [(''ok'', VBool True), (''id'', VStr (py_str E inserted_id)),
                         (''message'', VStr (''Document created in '' @ c))]),
               w\<lparr>reads := Suc (Suc (reads w)), db := Some s',
                 calls := calls w @ [InsertOne c
                   (dict_set (dict_set d ''created_at'' (VDatetime (clock w (reads w))))
                      ''updated_at'' (VDatetime (clock w (Suc (reads w)))))]\<rparr>))"
    if a: "(schema_for (str_lower E) members c = Some cls \<and> model_validate cls d = Inr ()) \<or>
        schema_for (str_lower E) members c = None" and b: "db w = Some s"
  proof -
    from ok[OF a] obtain v' where "validate_document E c d = Inr v'" "check_valid E v' = None"
      by blast
    then show ?thesis
      by (rule main_create_document_reached[OF assms(2) b])
  qed
  show "main_update_document E w c i d =
            (case update_one E s c [(''_id'', oid)]
                    [(''$set'', VDict (dict_set d ''updated_at''
                                         (VDatetime (clock w (reads w)))))] of
               (r, s') \<Rightarrow>
                 ((case r of
                     Inl x \<Rightarrow>
                       Inl (HTTPException 500
                              (''Error updating document: '' @ exn_str E (Raised x)))
                   | Inr result \<Rightarrow>
                       if modified_count result > 0
                       then Inr [(''ok'', VBool True),
                                 (''message'', VStr (''Document '' @ i @ '' updated in '' @ c))]
                       else Inl document_not_found),
                  w\<lparr>reads := Suc (reads w), db := Some s',
                    calls := calls w @ [UpdateOne c [(''_id'', oid)]
                      [(''$set'', VDict (dict_set d ''updated_at''
                                           (VDatetime (clock w (reads w)))))]]\<rparr>))"
    if a: "(schema_for (str_lower E) members c = Some cls \<and> model_validate cls d = Inr ()) \<or>
        schema_for (str_lower E) members c = None" and b: "db w = Some s"
      and o: "ObjectId E i = Inr oid"
  proof -
    from ok[OF a] obtain v' where "validate_document E c d = Inr v'" "check_valid E v' = None"
      by blast
    then show ?thesis
      using o by (rule main_update_document_reached[OF assms(2) b])
  qed
  show "validate_document E c d =
         Inr [(''ok'', VBool True), (''valid'', VBool True), (''message'', VStr skip_message)]"
    if "schema_for (str_lower E) members c = None"
    using v that by simp
  show "(schema_for (str_lower E) members c = None) =
       (\<not> (\<exists>name k. (name, ModelClass k) \<in> set members \<and> str_lower E name = c))"
    by (rule schema_for_None_iff)
qed

lemma example_schema_for_user: "schema_for ascii_lower example_schemas ''user'' = Some User"
  by (simp add: schema_for_def named_models_def example_schemas_def shipped_schemas_def
      ascii_lower_def ascii_lower_char_def)

theorem validation_before_write_witness:
  "import_schemas sample_env = Inr example_schemas \<and> import_database sample_env = None \<and>
   schema_for (str_lower sample_env) example_schemas ''user'' = Some User \<and>
   model_validate User [(''username'', VStr ''bob'')] =
     Inl (ValidationError (VList [VStr ''Field required''])) \<and>
   status_of (fst (main_create_document sample_env sample_world ''user''
                     [(''username'', VStr ''bob'')])) = Some 400 \<and>
   snd (main_create_document sample_env sample_world ''user'' [(''username'', VStr ''bob'')]) =
     sample_world"
proof -
  have h1: "import_schemas sample_env = Inr example_schemas"
    and h2: "import_database sample_env = None"
    by (simp_all add: sample_env_def)
  have h3: "model_validate User [(''username'', VStr ''bob'')] =
              Inl (ValidationError (VList [VStr ''Field required'']))"
    by (simp add: User_def dict_contains_def)
  have h4: "db sample_world \<noteq> None"
    by (simp add: sample_world_def)
  have h5: "schema_for (str_lower sample_env) example_schemas ''user'' = Some User"
    using example_schema_for_user by (simp add: sample_env_def)
  have "status_of (fst (main_create_document sample_env sample_world ''user''
                     [(''username'', VStr ''bob'')])) =
          Some (if db sample_world = None then 503 else 400) \<and>
        snd (main_create_document sample_env sample_world ''user'' [(''username'', VStr ''bob'')]) =
          sample_world"
    using h3 h5
      validation_before_write [OF h1 h2, where c = "''user''" and cls = User
        and d = "[(''username'', VStr ''bob'')]"
        and ve = "ValidationError (VList [VStr ''Field required''])" and w = sample_world]
    by blast
  with h1 h2 h3 h4 h5 show ?thesis
    by simp
qed

section \<open>Error responses\<close>























section \<open>The caller's dictionary\<close>

lemma create_document_h_heap:
  "take (length h) (fst (snd (create_document_h E touch (h, w) c data))) = h"
  by (simp add: create_document_h_def Let_def now_def split_beta split: option.splits sum.splits)

lemma update_document_h_heap:
  "take (length h) (fst (snd (update_document_h E touch (h, w) c f data))) = h"
  by (simp add: update_document_h_def Let_def now_def split_beta split: option.splits sum.splits)

lemma create_document_h_value:
  "(fst (create_document_h E touch (h, w) c data),
    snd (snd (create_document_h E touch (h, w) c data))) =
   create_document E w c (deref h data)"
  by (simp add: create_document_h_def create_document_def deref_def Let_def now_def split_beta
      split: option.splits sum.splits data_ref.splits)

lemma update_document_h_value:
  "(fst (update_document_h E touch (h, w) c f data),
    snd (snd (update_document_h E touch (h, w) c f data))) =
   update_document E w c f (deref h data)"
  by (simp add: update_document_h_def update_document_def deref_def Let_def now_def split_beta
      split: option.splits sum.splits data_ref.splits)

lemma take_nth_eq: "take n xs = ys \<Longrightarrow> r < n \<Longrightarrow> n = length ys \<Longrightarrow> xs ! r = ys ! r"
  by (metis nth_take)

text \<open>
  C10: the dictionary a caller hands to \<^verbatim>\<open>create_document\<close> or \<^verbatim>\<open>update_document\<close>
  is the same after the call, whatever the driver does to the dictionary it is given
  and whether or not the call raises: every object that was on the heap before the call
  is unchanged, so the caller's dictionary has the keys and values it had; the
  timestamps go to a new object. The call computes what the functions compute on the
  value of the argument.
\<close>

theorem caller_data_unchanged:
  assumes "r < length h"
  shows "fst (snd (create_document_h E touch (h, w) c (DictRef r))) ! r = h ! r \<and>
         take (length h) (fst (snd (create_document_h E touch (h, w) c (DictRef r)))) = h \<and>
         (fst (create_document_h E touch (h, w) c (DictRef r)),
          snd (snd (create_document_h E touch (h, w) c (DictRef r)))) =
           create_document E w c (DictArg (h ! r)) \<and>
         fst (snd (update_document_h E touch (h, w) c f (DictRef r))) ! r = h ! r \<and>
         take (length h) (fst (snd (update_document_h E touch (h, w) c f (DictRef r)))) = h \<and>
         (fst (update_document_h E touch (h, w) c f (DictRef r)),
          snd (snd (update_document_h E touch (h, w) c f (DictRef r)))) =
           update_document E w c f (DictArg (h ! r))"
  using take_nth_eq[OF create_document_h_heap[of h E touch w c "DictRef r"] assms]
    take_nth_eq[OF update_document_h_heap[of h E touch w c f "DictRef r"] assms]
    create_document_h_heap[of h E touch w c "DictRef r"]
    update_document_h_heap[of h E touch w c f "DictRef r"]
    create_document_h_value[of E touch h w c "DictRef r"]
    update_document_h_value[of E touch h w c f "DictRef r"]
  by (simp add: deref_def)

theorem caller_data_unchanged_witness:
  "(0::nat) < length [[(''username'', VStr ''bob'')]] \<and>
   fst (snd (create_document_h sample_env (\<lambda>d. dict_set d ''_id'' (VInt 7))
               ([[(''username'', VStr ''bob'')]], sample_world) ''user'' (DictRef 0))) ! 0 =
     [(''username'', VStr ''bob'')] \<and>
   fst (snd (create_document_h sample_env (\<lambda>d. dict_set d ''_id'' (VInt 7))
               ([[(''username'', VStr ''bob'')]], sample_world) ''user'' (DictRef 0))) =
     [[(''username'', VStr ''bob'')],
      [(''username'', VStr ''bob''), (''created_at'', VDatetime 1000),
       (''updated_at'', VDatetime 1001), (''_id'', VInt 7)]]"
proof -
  have h: "(0::nat) < length [[(''username'', VStr ''bob'')]]"
    by simp
  have e: "fst (snd (create_document_h sample_env (\<lambda>d. dict_set d ''_id'' (VInt 7))
               ([[(''username'', VStr ''bob'')]], sample_world) ''user'' (DictRef 0))) =
     [[(''username'', VStr ''bob'')],
      [(''username'', VStr ''bob''), (''created_at'', VDatetime 1000),
       (''updated_at'', VDatetime 1001), (''_id'', VInt 7)]]"
    by (simp add: create_document_h_def Let_def now_def sample_world_def sample_env_def
        mem_insert_one_def split_beta)
  show ?thesis
    using h e caller_data_unchanged [OF h, where E = sample_env
        and touch = "\<lambda>d. dict_set d ''_id'' (VInt 7)" and w = sample_world and c = "''user''"]
    by simp
qed


end
